theory Spec2Isabelle
  imports Complex_Main
begin

section \<open>JavaScript numbers\<close>

text \<open>
  A JavaScript number is an IEEE 754 double (binary64): a finite value, one of the two
  infinities, or \<open>NaN\<close>. A finite double is carried as the real number it denotes, and
  every arithmetic operation returns the exact result rounded to the nearest double,
  ties to the even significand, as the standard prescribes. The sign of zero is not
  kept: comparisons and \<open>toString\<close> do not see it, and the code modelled here tests every
  divisor before it divides.
\<close>

datatype Number = Finite real | Infinity | NegInfinity | NaN

text \<open>\<open>floor (log2 x)\<close> for a positive \<open>x\<close>, by halving from above and doubling from below.\<close>

function log2Up :: "real \<Rightarrow> int" where
  "log2Up x = (if x < 2 then 0 else 1 + log2Up (x / 2))"
  by pat_completeness auto
termination
proof (relation "measure (\<lambda>x. nat \<lfloor>x\<rfloor>)")
  show "wf (measure (\<lambda>x::real. nat \<lfloor>x\<rfloor>))" by simp
next
  fix x :: real
  assume "\<not> x < 2"
  then have "\<lfloor>x / 2\<rfloor> < \<lfloor>x\<rfloor>" and "0 < \<lfloor>x\<rfloor>"
    by linarith+
  then show "(x / 2, x) \<in> measure (\<lambda>x. nat \<lfloor>x\<rfloor>)"
    by simp
qed

function log2Down :: "real \<Rightarrow> int" where
  "log2Down x = (if x \<le> 0 \<or> 1 \<le> x then 0 else log2Down (2 * x) - 1)"
  by pat_completeness auto
termination
proof (relation "measure (\<lambda>x. nat \<lceil>1 / x\<rceil>)")
  show "wf (measure (\<lambda>x::real. nat \<lceil>1 / x\<rceil>))" by simp
next
  fix x :: real
  assume "\<not> (x \<le> 0 \<or> 1 \<le> x)"
  then have x: "0 < x" "x < 1" by auto
  define y where "y = 1 / x"
  from x have y: "1 < y" by (simp add: y_def)
  have half: "1 / (2 * x) = y / 2" by (simp add: y_def)
  from y have n: "2 \<le> \<lceil>y\<rceil>" by linarith
  have "y / 2 \<le> of_int \<lceil>y\<rceil> / 2" by simp
  also have "\<dots> \<le> of_int (\<lceil>y\<rceil> - 1)" using n by simp
  finally have "\<lceil>y / 2\<rceil> \<le> \<lceil>y\<rceil> - 1" by (simp only: ceiling_le_iff)
  with n show "(2 * x, x) \<in> measure (\<lambda>x. nat \<lceil>1 / x\<rceil>)"
    by (simp add: half y_def[symmetric])
qed

definition floorLog2 :: "real \<Rightarrow> int" where
  "floorLog2 x = (if 1 \<le> x then log2Up x else log2Down x)"

text \<open>The nearest integer, a tie going to the even one.\<close>

definition roundHalfEven :: "real \<Rightarrow> int" where
  "roundHalfEven x =
     (let f = \<lfloor>x\<rfloor>; d = x - of_int f
      in if d < 1 / 2 then f else if 1 / 2 < d then f + 1 else if even f then f else f + 1)"

text \<open>
  The nearest value with a significand of 53 bits and an exponent of at least that of
  the subnormal doubles: the doubles around \<open>x\<close> are the multiples of \<open>2 ^ e\<close>, where
  \<open>e = floor (log2 |x|) - 52\<close>, and never less than \<open>-1074\<close>.
\<close>

definition fl :: "real \<Rightarrow> real" where
  "fl x =
     (if x = 0 then 0
      else let e = max (floorLog2 \<bar>x\<bar> - 52) (- 1074)
           in of_int (roundHalfEven (x / 2 powi e)) * 2 powi e)"

text \<open>\<open>Number.MAX_VALUE\<close>, the largest finite double, \<open>(2 ^ 53 - 1) * 2 ^ 971\<close>.\<close>

definition MAX_VALUE :: real where
  "MAX_VALUE =
     179769313486231570814527423731704356798070567525844996598917476803157260780028538760589558632766878171540458953514382464234321326889464182768467546703537516986049910576551282076245490090389328944075868508455133942304583236903222948165808559332123348274797826204144723168738177180919299881250404026184124858368"

text \<open>
  The double an exact result is delivered as: the rounded value, or an infinity when
  the rounded value lies beyond the largest finite double.
\<close>

definition toNumber :: "real \<Rightarrow> Number" where
  "toNumber x =
     (let y = fl x
      in if MAX_VALUE < y then Infinity
         else if y < - MAX_VALUE then NegInfinity
         else Finite y)"

fun numNeg :: "Number \<Rightarrow> Number" where
  "numNeg (Finite a) = Finite (- a)"
| "numNeg Infinity = NegInfinity"
| "numNeg NegInfinity = Infinity"
| "numNeg NaN = NaN"

text \<open>\<open>a + b\<close>, \<open>a - b\<close>, \<open>a * b\<close> and \<open>a / b\<close>.\<close>

fun numAdd :: "Number \<Rightarrow> Number \<Rightarrow> Number" where
  "numAdd (Finite a) (Finite b) = toNumber (a + b)"
| "numAdd NaN b = NaN"
| "numAdd a NaN = NaN"
| "numAdd Infinity NegInfinity = NaN"
| "numAdd NegInfinity Infinity = NaN"
| "numAdd Infinity b = Infinity"
| "numAdd NegInfinity b = NegInfinity"
| "numAdd (Finite a) b = b"

definition numSub :: "Number \<Rightarrow> Number \<Rightarrow> Number" where
  "numSub a b = numAdd a (numNeg b)"

text \<open>The sign of a number that is not \<open>NaN\<close>: \<open>-1\<close>, \<open>0\<close> or \<open>1\<close>.\<close>

fun numSign :: "Number \<Rightarrow> int" where
  "numSign (Finite a) = (if a < 0 then - 1 else if a = 0 then 0 else 1)"
| "numSign Infinity = 1"
| "numSign NegInfinity = - 1"
| "numSign NaN = 0"

definition signedInfinity :: "int \<Rightarrow> Number" where
  "signedInfinity s = (if s = 0 then NaN else if 0 < s then Infinity else NegInfinity)"

fun numMul :: "Number \<Rightarrow> Number \<Rightarrow> Number" where
  "numMul (Finite a) (Finite b) = toNumber (a * b)"
| "numMul NaN b = NaN"
| "numMul a NaN = NaN"
| "numMul a b = signedInfinity (numSign a * numSign b)"

fun numDiv :: "Number \<Rightarrow> Number \<Rightarrow> Number" where
  "numDiv (Finite a) (Finite b) =
     (if b = 0 then signedInfinity (numSign (Finite a)) else toNumber (a / b))"
| "numDiv NaN b = NaN"
| "numDiv a NaN = NaN"
| "numDiv (Finite a) b = Finite 0"
| "numDiv a (Finite b) = signedInfinity (numSign a * (if b < 0 then - 1 else 1))"
| "numDiv a b = NaN"

text \<open>\<open>a < b\<close>, \<open>a > b\<close>, \<open>a <= b\<close> and \<open>a >= b\<close>; every comparison with \<open>NaN\<close> is false.\<close>

fun numLess :: "Number \<Rightarrow> Number \<Rightarrow> bool" where
  "numLess (Finite a) (Finite b) = (a < b)"
| "numLess NaN b = False"
| "numLess a NaN = False"
| "numLess a NegInfinity = False"
| "numLess Infinity b = False"
| "numLess a b = True"

definition numGreater :: "Number \<Rightarrow> Number \<Rightarrow> bool" where
  "numGreater a b = numLess b a"

definition numLessEq :: "Number \<Rightarrow> Number \<Rightarrow> bool" where
  "numLessEq a b = (a \<noteq> NaN \<and> b \<noteq> NaN \<and> \<not> numLess b a)"

definition numGreaterEq :: "Number \<Rightarrow> Number \<Rightarrow> bool" where
  "numGreaterEq a b = numLessEq b a"

text \<open>
  \<open>Math.round\<close>: the nearest integer, a tie going up; it is a double again, because a
  double of magnitude \<open>2 ^ 52\<close> or more is an integer already.
\<close>

fun mathRound :: "Number \<Rightarrow> Number" where
  "mathRound (Finite a) = Finite (of_int \<lfloor>a + 1 / 2\<rfloor>)"
| "mathRound a = a"

section \<open>Data model (types.ts)\<close>

text \<open>
  The amounts kept in storage are finite doubles, carried as \<^typ>\<open>real\<close>; every number
  the code computes from them is a \<^typ>\<open>Number\<close>. Counters, month indices and list
  lengths are \<^typ>\<open>nat\<close>, years and timestamps \<^typ>\<open>int\<close>.
\<close>

datatype Category =
    FoodGroceries | Meals | Transport | Fuel | RentUtilities | Education | HealthHygiene
  | EatingOut | Entertainment | Shopping | TravelTrips | Hobbies | Gifts
  | EmergencyFund | Gadgets | FutureGoals

definition NEEDS_CATEGORIES :: "Category list" where
  "NEEDS_CATEGORIES =
     [FoodGroceries, Meals, Transport, Fuel, RentUtilities, Education, HealthHygiene]"

definition LIFESTYLE_CATEGORIES :: "Category list" where
  "LIFESTYLE_CATEGORIES = [EatingOut, Entertainment, Shopping, TravelTrips, Hobbies, Gifts]"

definition SAVINGS_CATEGORIES :: "Category list" where
  "SAVINGS_CATEGORIES = [EmergencyFund, Gadgets, FutureGoals]"

definition ALL_CATEGORIES :: "Category list" where
  "ALL_CATEGORIES = NEEDS_CATEGORIES @ LIFESTYLE_CATEGORIES @ SAVINGS_CATEGORIES"

definition CATEGORIES :: "Category list" where
  "CATEGORIES = ALL_CATEGORIES"

text \<open>The string a category value is at run time (the members of the union type).\<close>

fun categoryString :: "Category \<Rightarrow> string" where
  "categoryString FoodGroceries = ''FoodGroceries''"
| "categoryString Meals = ''Meals''"
| "categoryString Transport = ''Transport''"
| "categoryString Fuel = ''Fuel''"
| "categoryString RentUtilities = ''RentUtilities''"
| "categoryString Education = ''Education''"
| "categoryString HealthHygiene = ''HealthHygiene''"
| "categoryString EatingOut = ''EatingOut''"
| "categoryString Entertainment = ''Entertainment''"
| "categoryString Shopping = ''Shopping''"
| "categoryString TravelTrips = ''TravelTrips''"
| "categoryString Hobbies = ''Hobbies''"
| "categoryString Gifts = ''Gifts''"
| "categoryString EmergencyFund = ''EmergencyFund''"
| "categoryString Gadgets = ''Gadgets''"
| "categoryString FutureGoals = ''FutureGoals''"

datatype EntryType = income | expense

fun entryTypeString :: "EntryType \<Rightarrow> string" where
  "entryTypeString income = ''income''"
| "entryTypeString expense = ''expense''"

text \<open>
  An \<open>Entry\<close>. The fields \<open>id\<close>, \<open>type\<close> and \<open>note\<close> are called \<open>entryId\<close>, \<open>entryType\<close>
  and \<open>entryNote\<close>.
  \<open>categoryGroup\<close> is absent on legacy entries (\<open>None\<close>), and both it and \<open>priority\<close>
  are kept as the strings the aggregation compares them with, because legacy data holds
  values (\<open>need\<close>, \<open>want\<close>) outside the declared union types. The note is optional.
\<close>

record Entry =
  entryId :: string
  amount :: real
  entryType :: EntryType
  category :: Category
  categoryGroup :: "string option"
  priority :: string
  date :: string
  entryNote :: "string option"
  createdAt :: int

record MonthlyData =
  totalIncome :: Number
  totalNeeds :: Number
  totalLifestyle :: Number
  totalSavings :: Number
  totalWants :: Number
  balance :: Number

record Budget =
  budgetCategory :: Category
  budgetValue :: real
  budgetMonth :: nat
  budgetYear :: int

text \<open>
  In \<open>Budget\<close> the fields \<open>category\<close>, \<open>amount\<close>, \<open>month\<close>, \<open>year\<close> carry the prefix
  \<open>budget\<close> (\<open>amount\<close> is \<open>budgetValue\<close>), in \<open>CategoryBudgetStatus\<close> and \<open>CategoryGrowth\<close>
  the field \<open>category\<close> is \<open>statusCategory\<close> and \<open>growthCategory\<close>.
\<close>

datatype StatusTier = green | yellow | red

record CategoryBudgetStatus =
  statusCategory :: Category
  budgetAmount :: real
  spentAmount :: Number
  remainingAmount :: Number
  percentage :: Number
  status :: StatusTier

record CategoryGrowth =
  growthCategory :: Category
  currentAmount :: Number
  previousAmount :: Number
  growthPercent :: Number

record StreakData =
  currentStreak :: nat
  longestStreak :: nat
  lastEntryDate :: string
  totalDaysWithEntries :: nat

text \<open>
  An \<open>Achievement\<close> with the fields the unlock logic reads; the presentation fields
  (\<open>description\<close>, \<open>icon\<close>) and the time stamp \<open>unlockedAt\<close> are left out.
\<close>

record Achievement =
  achievementId :: string
  achievementName :: string
  isUnlocked :: bool

section \<open>Calendar dates\<close>

text \<open>
  The calendar fields of a JavaScript \<open>Date\<close> in local time: \<open>getFullYear()\<close>,
  \<open>getMonth()\<close> (0 to 11) and \<open>getDate()\<close> (1 to 31). The time of day and the time zone
  are not modelled: local time is taken to be UTC.
\<close>

record JsDate =
  fullYear :: int
  monthIndex :: nat
  dayOfMonth :: nat

text \<open>\<open>{ year, month }\<close> as returned by \<open>getMonthDate\<close> and stored as the budget month marker.\<close>

record YearMonth =
  year :: int
  month :: nat

definition isLeapYear :: "int \<Rightarrow> bool" where
  "isLeapYear y = (y mod 4 = 0 \<and> (y mod 100 \<noteq> 0 \<or> y mod 400 = 0))"

definition daysInMonth :: "int \<Rightarrow> nat \<Rightarrow> nat" where
  "daysInMonth y m =
     (if m = 1 then (if isLeapYear y then 29 else 28)
      else if m = 3 \<or> m = 5 \<or> m = 8 \<or> m = 10 then 30
      else 31)"

text \<open>
  \<open>date.setMonth(m)\<close> for any integer \<open>m\<close>: the year moves by \<open>floor (m / 12)\<close>, the month
  is \<open>m modulo 12\<close>, and a day of the month that the target month does not have runs over
  into the following month (31 March set to month 1 is 2 or 3 March). A month has at least
  28 days and December has 31, so the overflow never leaves the year.
\<close>

definition setMonth :: "JsDate \<Rightarrow> int \<Rightarrow> JsDate" where
  "setMonth d m =
     (let y = fullYear d + m div 12;
          mn = nat (m mod 12);
          dim = daysInMonth y mn
      in if dayOfMonth d \<le> dim
         then \<lparr>fullYear = y, monthIndex = mn, dayOfMonth = dayOfMonth d\<rparr>
         else \<lparr>fullYear = y, monthIndex = mn + 1, dayOfMonth = dayOfMonth d - dim\<rparr>)"

text \<open>
  \<open>new Date(s)\<close> for a date string \<open>YYYY-MM-DD\<close>, the form in which the entry form
  stores a date. A day up to 31 that the month does not have runs over into the next
  month. Any other string is taken as an invalid date (\<open>None\<close>): its \<open>getFullYear()\<close>
  and \<open>getMonth()\<close> are \<open>NaN\<close>, which equals no year and no month. The further
  formats that \<open>Date\<close> accepts are not modelled.
\<close>

definition digitValue :: "char \<Rightarrow> int option" where
  "digitValue c =
     (let n = (of_char c :: int) in if 48 \<le> n \<and> n \<le> 57 then Some (n - 48) else None)"

fun parseDigits :: "string \<Rightarrow> int \<Rightarrow> int option" where
  "parseDigits [] acc = Some acc"
| "parseDigits (c # cs) acc =
     (case digitValue c of None \<Rightarrow> None | Some v \<Rightarrow> parseDigits cs (10 * acc + v))"

definition parseDate :: "string \<Rightarrow> JsDate option" where
  "parseDate s =
     (if length s = 10 \<and> s ! 4 = CHR ''-'' \<and> s ! 7 = CHR ''-''
      then (case (parseDigits (take 4 s) 0, parseDigits (take 2 (drop 5 s)) 0,
                  parseDigits (drop 8 s) 0) of
              (Some y, Some m, Some d) \<Rightarrow>
                if 1 \<le> m \<and> m \<le> 12 \<and> 1 \<le> d \<and> d \<le> 31
                then (if d \<le> int (daysInMonth y (nat (m - 1)))
                      then Some \<lparr>fullYear = y, monthIndex = nat (m - 1), dayOfMonth = nat d\<rparr>
                      else Some \<lparr>fullYear = y, monthIndex = nat m,
                                 dayOfMonth = nat d - daysInMonth y (nat (m - 1))\<rparr>)
                else None
            | _ \<Rightarrow> None)
      else None)"

section \<open>Persistent state (localStorage)\<close>

text \<open>
  The five items the services keep in \<open>localStorage\<close>, each \<open>None\<close> while its key is
  absent. The items hold the parsed values: stored text that does not parse is outside
  the model.
\<close>

record LocalStorage =
  entriesItem :: "Entry list option"
  budgetsItem :: "Budget list option"
  budgetMonthItem :: "YearMonth option"
  streakItem :: "StreakData option"
  achievementsItem :: "string list option"

section \<open>Entry store (storage.ts)\<close>

definition getEntries :: "LocalStorage \<Rightarrow> Entry list" where
  "getEntries ls = (case entriesItem ls of None \<Rightarrow> [] | Some data \<Rightarrow> data)"

definition saveEntries :: "Entry list \<Rightarrow> LocalStorage \<Rightarrow> LocalStorage" where
  "saveEntries entries ls = ls\<lparr>entriesItem := Some entries\<rparr>"

text \<open>\<open>Array.prototype.findIndex\<close>, with \<open>None\<close> for \<open>-1\<close>.\<close>

fun findIndex :: "('a \<Rightarrow> bool) \<Rightarrow> 'a list \<Rightarrow> nat option" where
  "findIndex p [] = None"
| "findIndex p (x # xs) =
     (if p x then Some 0 else (case findIndex p xs of None \<Rightarrow> None | Some i \<Rightarrow> Some (Suc i)))"

text \<open>
  \<open>Partial<Omit<Entry, 'id' | 'createdAt'>>\<close>: each field is present or not, and the
  object spread \<open>{ ...entry, ...updates }\<close> replaces the fields that are present. The
  two fields an entry may lack, the group and the note, can also be present with the
  value \<open>undefined\<close> (\<open>Some None\<close>), which removes them from the entry.
\<close>

record EntryUpdates =
  newAmount :: "real option"
  newEntryType :: "EntryType option"
  newCategory :: "Category option"
  newCategoryGroup :: "string option option"
  newPriority :: "string option"
  newDate :: "string option"
  newNote :: "string option option"

definition spread :: "Entry \<Rightarrow> EntryUpdates \<Rightarrow> Entry" where
  "spread e u =
     \<lparr>entryId = entryId e,
      amount = (case newAmount u of None \<Rightarrow> amount e | Some v \<Rightarrow> v),
      entryType = (case newEntryType u of None \<Rightarrow> entryType e | Some v \<Rightarrow> v),
      category = (case newCategory u of None \<Rightarrow> category e | Some v \<Rightarrow> v),
      categoryGroup = (case newCategoryGroup u of None \<Rightarrow> categoryGroup e | Some v \<Rightarrow> v),
      priority = (case newPriority u of None \<Rightarrow> priority e | Some v \<Rightarrow> v),
      date = (case newDate u of None \<Rightarrow> date e | Some v \<Rightarrow> v),
      entryNote = (case newNote u of None \<Rightarrow> entryNote e | Some v \<Rightarrow> v),
      createdAt = createdAt e\<rparr>"

text \<open>\<open>updateEntry\<close> returns the updated entry or \<open>null\<close> (\<open>None\<close>), and the new storage.\<close>

definition updateEntry ::
  "string \<Rightarrow> EntryUpdates \<Rightarrow> LocalStorage \<Rightarrow> Entry option \<times> LocalStorage" where
  "updateEntry ident updates ls =
     (let entries = getEntries ls in
      case findIndex (\<lambda>e. entryId e = ident) entries of
        None \<Rightarrow> (None, ls)
      | Some index \<Rightarrow>
          (let entries' = entries[index := spread (entries ! index) updates]
           in (Some (entries' ! index), saveEntries entries' ls)))"

definition deleteEntry :: "string \<Rightarrow> LocalStorage \<Rightarrow> bool \<times> LocalStorage" where
  "deleteEntry ident ls =
     (let entries = getEntries ls;
          filtered = filter (\<lambda>e. entryId e \<noteq> ident) entries
      in if length filtered = length entries then (False, ls)
         else (True, saveEntries filtered ls))"

text \<open>
  \<open>getEntriesByMonth\<close>: the entries whose date lies in the month, newest \<open>createdAt\<close>
  first. \<open>Array.prototype.sort\<close> is stable, as is \<^const>\<open>sort_key\<close>.
\<close>

definition inMonth :: "int \<Rightarrow> nat \<Rightarrow> Entry \<Rightarrow> bool" where
  "inMonth y m entry =
     (case parseDate (date entry) of
        None \<Rightarrow> False
      | Some d \<Rightarrow> fullYear d = y \<and> monthIndex d = m)"

definition getEntriesByMonth :: "int \<Rightarrow> nat \<Rightarrow> LocalStorage \<Rightarrow> Entry list" where
  "getEntriesByMonth y m ls =
     sort_key (\<lambda>e. - createdAt e) (filter (inMonth y m) (getEntries ls))"

text \<open>
  \<open>getMonthlyData\<close>. The group of an expense is \<open>categoryGroup || priority\<close>: the
  priority when the group is absent or the empty string. The loop body adds the entry to
  one of the four running totals, or to none.
\<close>

definition entryGroup :: "Entry \<Rightarrow> string" where
  "entryGroup entry =
     (case categoryGroup entry of
        None \<Rightarrow> priority entry
      | Some g \<Rightarrow> if g = [] then priority entry else g)"

definition addToTotals ::
  "Entry \<Rightarrow> Number \<times> Number \<times> Number \<times> Number \<Rightarrow> Number \<times> Number \<times> Number \<times> Number" where
  "addToTotals entry t =
     (case t of (tIncome, tNeeds, tLifestyle, tSavings) \<Rightarrow>
        if entryType entry = income
        then (numAdd tIncome (Finite (amount entry)), tNeeds, tLifestyle, tSavings)
        else (let g = entryGroup entry in
              if g = ''needs'' \<or> g = ''need''
              then (tIncome, numAdd tNeeds (Finite (amount entry)), tLifestyle, tSavings)
              else if g = ''lifestyle''
              then (tIncome, tNeeds, numAdd tLifestyle (Finite (amount entry)), tSavings)
              else if g = ''savings''
              then (tIncome, tNeeds, tLifestyle, numAdd tSavings (Finite (amount entry)))
              else if g = ''want''
              then (tIncome, tNeeds, numAdd tLifestyle (Finite (amount entry)), tSavings)
              else (tIncome, tNeeds, tLifestyle, tSavings)))"

definition getMonthlyData :: "int \<Rightarrow> nat \<Rightarrow> LocalStorage \<Rightarrow> MonthlyData" where
  "getMonthlyData y m ls =
     (case fold addToTotals (getEntriesByMonth y m ls) (Finite 0, Finite 0, Finite 0, Finite 0) of
        (tIncome, tNeeds, tLifestyle, tSavings) \<Rightarrow>
          \<lparr>totalIncome = tIncome, totalNeeds = tNeeds, totalLifestyle = tLifestyle,
           totalSavings = tSavings, totalWants = tLifestyle,
           balance = numSub (numSub (numSub tIncome tNeeds) tLifestyle) tSavings\<rparr>)"

subsection \<open>CSV export\<close>

text \<open>\<open>Array.prototype.join\<close> on strings.\<close>

fun join :: "string \<Rightarrow> string list \<Rightarrow> string" where
  "join sep [] = []"
| "join sep [x] = x"
| "join sep (x # y # ys) = x @ sep @ join sep (y # ys)"

definition headers :: "string list" where
  "headers = [''Date'', ''Type'', ''Category'', ''Priority'', ''Amount'', ''Note'']"

text \<open>
  The cells of one entry. \<open>numberToString\<close> stands for \<open>Number.prototype.toString\<close>, the
  decimal rendering of the amount; a missing or empty note gives the empty cell.
\<close>

definition row :: "(real \<Rightarrow> string) \<Rightarrow> Entry \<Rightarrow> string list" where
  "row numberToString entry =
     [date entry, entryTypeString (entryType entry), categoryString (category entry),
      priority entry, numberToString (amount entry),
      (case entryNote entry of None \<Rightarrow> [] | Some n \<Rightarrow> n)]"

definition quoteCell :: "string \<Rightarrow> string" where
  "quoteCell cell = [CHR 0x22] @ cell @ [CHR 0x22]"

text \<open>The lines of the file before they are joined by the line feed.\<close>

definition csvLines :: "(real \<Rightarrow> string) \<Rightarrow> Entry list \<Rightarrow> string list" where
  "csvLines numberToString entries =
     join '','' headers # map (\<lambda>r. join '','' (map quoteCell r)) (map (row numberToString) entries)"

text \<open>
  \<open>exportToCSV\<close>: \<open>None\<close> when there is nothing to export (the alert), otherwise the
  text handed to the download. The download itself is not modelled.
\<close>

definition exportToCSV :: "(real \<Rightarrow> string) \<Rightarrow> LocalStorage \<Rightarrow> string option" where
  "exportToCSV numberToString ls =
     (let entries = getEntries ls in
      if length entries = 0 then None
      else Some (join [CHR 0x0A] (csvLines numberToString entries)))"

section \<open>Analytics (analytics.ts)\<close>

definition getMonthDate :: "nat \<Rightarrow> JsDate \<Rightarrow> YearMonth" where
  "getMonthDate monthsAgo today =
     (let d = setMonth today (int (monthIndex today) - int monthsAgo)
      in \<lparr>year = fullYear d, month = monthIndex d\<rparr>)"

definition getCategorySpending :: "Category \<Rightarrow> int \<Rightarrow> nat \<Rightarrow> LocalStorage \<Rightarrow> Number" where
  "getCategorySpending cat y m ls =
     foldl (\<lambda>sum e. numAdd sum (Finite (amount e))) (Finite 0)
       (filter (\<lambda>e. entryType e = expense \<and> category e = cat) (getEntriesByMonth y m ls))"

definition calculateSavingsRate :: "Number \<Rightarrow> Number \<Rightarrow> Number" where
  "calculateSavingsRate incomeTotal expenses =
     (if numLessEq incomeTotal (Finite 0) then Finite 0
      else let savings = numSub incomeTotal expenses
           in mathRound (numMul (numDiv savings incomeTotal) (Finite 100)))"

definition calculateCategoryGrowth :: "JsDate \<Rightarrow> LocalStorage \<Rightarrow> CategoryGrowth list" where
  "calculateCategoryGrowth today ls =
     (let current = getMonthDate 0 today;
          previous = getMonthDate 1 today
      in filter (\<lambda>cg. numGreater (currentAmount cg) (Finite 0)
                      \<or> numGreater (previousAmount cg) (Finite 0))
           (map (\<lambda>cat.
                  let cur = getCategorySpending cat (year current) (month current) ls;
                      prev = getCategorySpending cat (year previous) (month previous) ls;
                      growth =
                        (if numGreater prev (Finite 0)
                         then mathRound (numMul (numDiv (numSub cur prev) prev) (Finite 100))
                         else if numGreater cur (Finite 0) then Finite 100 else Finite 0)
                  in \<lparr>growthCategory = cat, currentAmount = cur, previousAmount = prev,
                      growthPercent = growth\<rparr>)
             CATEGORIES))"

subsection \<open>Trend analysis\<close>

text \<open>
  The first loop of \<open>getExpenseTrend\<close>: the expense total (needs plus wants) of each of
  the months \<open>getMonthDate 0\<close>, ..., \<open>getMonthDate (months - 1)\<close>, newest first.
\<close>

definition monthlyExpenses :: "nat \<Rightarrow> JsDate \<Rightarrow> LocalStorage \<Rightarrow> Number list" where
  "monthlyExpenses months today ls =
     map (\<lambda>i. let ym = getMonthDate i today;
                  data = getMonthlyData (year ym) (month ym) ls
              in numAdd (totalNeeds data) (totalWants data))
       [0..<months]"

text \<open>
  The second loop: for \<open>i\<close> from 0 to \<open>length - 2\<close> count the pairs with
  \<open>v[i] > v[i + 1]\<close> and, failing that, those with \<open>v[i] < v[i + 1]\<close>.
\<close>

definition countStep :: "Number list \<Rightarrow> nat \<Rightarrow> nat \<times> nat \<Rightarrow> nat \<times> nat" where
  "countStep v i c =
     (case c of (upCount, downCount) \<Rightarrow>
        if numGreater (v ! i) (v ! (i + 1)) then (upCount + 1, downCount)
        else if numLess (v ! i) (v ! (i + 1)) then (upCount, downCount + 1)
        else (upCount, downCount))"

definition countPairs :: "Number list \<Rightarrow> nat \<times> nat" where
  "countPairs v = fold (countStep v) [0..<length v - 1] (0, 0)"

definition getExpenseTrend :: "nat \<Rightarrow> JsDate \<Rightarrow> LocalStorage \<Rightarrow> string" where
  "getExpenseTrend months today ls =
     (let expenses = monthlyExpenses months today ls in
      if length expenses < 2 then ''stable''
      else (case countPairs expenses of (risingCount, fallingCount) \<Rightarrow>
              if risingCount \<ge> length expenses div 2 then ''rising''
              else if fallingCount \<ge> length expenses div 2 then ''falling''
              else ''stable''))"

definition monthlySavingsRates :: "nat \<Rightarrow> JsDate \<Rightarrow> LocalStorage \<Rightarrow> Number list" where
  "monthlySavingsRates months today ls =
     map (\<lambda>i. let ym = getMonthDate i today;
                  data = getMonthlyData (year ym) (month ym) ls;
                  expenses = numAdd (totalNeeds data) (totalWants data)
              in calculateSavingsRate (totalIncome data) expenses)
       [0..<months]"

definition getSavingsTrend :: "nat \<Rightarrow> JsDate \<Rightarrow> LocalStorage \<Rightarrow> string" where
  "getSavingsTrend months today ls =
     (let savingsRates = monthlySavingsRates months today ls in
      if length savingsRates < 2 then ''stable''
      else (case countPairs savingsRates of (improvingCount, decliningCount) \<Rightarrow>
              if improvingCount \<ge> length savingsRates div 2 then ''improving''
              else if decliningCount \<ge> length savingsRates div 2 then ''declining''
              else ''stable''))"

section \<open>Forecast (forecast.ts)\<close>

text \<open>
  \<open>calculateWeightedAverage\<close>: the \<open>forEach\<close> callback at \<open>index\<close> adds
  \<open>value * weight\<close> and \<open>weight\<close>, with \<open>weight = values.length - index\<close>, to the two
  running sums.
\<close>

fun forEachWeight ::
  "nat \<Rightarrow> nat \<Rightarrow> Number list \<Rightarrow> Number \<times> Number \<Rightarrow> Number \<times> Number" where
  "forEachWeight len index [] acc = acc"
| "forEachWeight len index (v # rest) acc =
     (case acc of (weightedSum, totalWeight) \<Rightarrow>
        let weight = Finite (real (len - index))
        in forEachWeight len (index + 1) rest
             (numAdd weightedSum (numMul v weight), numAdd totalWeight weight))"

definition calculateWeightedAverage :: "Number list \<Rightarrow> Number" where
  "calculateWeightedAverage vs =
     (if length vs = 0 then Finite 0
      else (case forEachWeight (length vs) 0 vs (Finite 0, Finite 0) of
              (weightedSum, totalWeight) \<Rightarrow>
                if numGreater totalWeight (Finite 0)
                then mathRound (numDiv weightedSum totalWeight)
                else Finite 0))"

section \<open>Budgets (budget.ts)\<close>

text \<open>
  Every function that reads or writes \<open>localStorage\<close> takes the storage and returns the
  new one beside its result; \<open>today\<close> is the value of \<open>new Date()\<close>.
\<close>

definition getLastBudgetMonth :: "LocalStorage \<Rightarrow> YearMonth option" where
  "getLastBudgetMonth ls = budgetMonthItem ls"

definition updateLastBudgetMonth :: "JsDate \<Rightarrow> LocalStorage \<Rightarrow> LocalStorage" where
  "updateLastBudgetMonth today ls =
     ls\<lparr>budgetMonthItem := Some \<lparr>year = fullYear today, month = monthIndex today\<rparr>\<rparr>"

text \<open>
  The parsed budget item, the empty list while the key is absent:
  \<open>JSON.parse(localStorage.getItem(BUDGET_KEY) || '[]')\<close>.
\<close>

definition storedBudgets :: "LocalStorage \<Rightarrow> Budget list" where
  "storedBudgets ls = (case budgetsItem ls of None \<Rightarrow> [] | Some data \<Rightarrow> data)"

definition checkAndResetMonthlyBudgets :: "JsDate \<Rightarrow> LocalStorage \<Rightarrow> LocalStorage" where
  "checkAndResetMonthlyBudgets today ls =
     (case getLastBudgetMonth ls of
        None \<Rightarrow> ls
      | Some lastTracked \<Rightarrow>
          (let currentMonth = monthIndex today;
               currentYear = fullYear today
           in if month lastTracked \<noteq> currentMonth \<or> year lastTracked \<noteq> currentYear
              then (let oldBudgets = storedBudgets ls;
                        lastMonthBudgets =
                          filter (\<lambda>b. budgetMonth b = month lastTracked \<and> budgetYear b = year lastTracked)
                            oldBudgets;
                        newBudgets =
                          map (\<lambda>b. \<lparr>budgetCategory = budgetCategory b,
                                    budgetValue = budgetValue b,
                                    budgetMonth = currentMonth,
                                    budgetYear = currentYear\<rparr>)
                            lastMonthBudgets;
                        allBudgets = oldBudgets @ newBudgets
                    in updateLastBudgetMonth today (ls\<lparr>budgetsItem := Some allBudgets\<rparr>))
              else ls))"

definition getBudgets :: "JsDate \<Rightarrow> LocalStorage \<Rightarrow> Budget list \<times> LocalStorage" where
  "getBudgets today ls =
     (let ls' = checkAndResetMonthlyBudgets today ls
      in (storedBudgets ls', ls'))"

definition saveBudgets :: "Budget list \<Rightarrow> LocalStorage \<Rightarrow> LocalStorage" where
  "saveBudgets budgets ls = ls\<lparr>budgetsItem := Some budgets\<rparr>"

definition isBudgetOf :: "Category \<Rightarrow> JsDate \<Rightarrow> Budget \<Rightarrow> bool" where
  "isBudgetOf cat today b =
     (budgetCategory b = cat \<and> budgetMonth b = monthIndex today \<and> budgetYear b = fullYear today)"

definition setBudget :: "Category \<Rightarrow> real \<Rightarrow> JsDate \<Rightarrow> LocalStorage \<Rightarrow> LocalStorage" where
  "setBudget cat value today ls =
     (case getBudgets today ls of (budgets, ls1) \<Rightarrow>
        let budgets' =
              (case findIndex (isBudgetOf cat today) budgets of
                 Some existing \<Rightarrow> budgets[existing := (budgets ! existing)\<lparr>budgetValue := value\<rparr>]
               | None \<Rightarrow>
                   budgets @ [\<lparr>budgetCategory = cat, budgetValue = value,
                               budgetMonth = monthIndex today, budgetYear = fullYear today\<rparr>])
        in updateLastBudgetMonth today (saveBudgets budgets' ls1))"

text \<open>\<open>budget?.amount || 0\<close>: the amount of the first matching row, 0 without one.\<close>

definition getBudgetForCategory :: "Category \<Rightarrow> JsDate \<Rightarrow> LocalStorage \<Rightarrow> real \<times> LocalStorage" where
  "getBudgetForCategory cat today ls =
     (case getBudgets today ls of (budgets, ls') \<Rightarrow>
        ((case find (isBudgetOf cat today) budgets of
            None \<Rightarrow> 0
          | Some budget \<Rightarrow> budgetValue budget), ls'))"

definition removeBudget :: "Category \<Rightarrow> JsDate \<Rightarrow> LocalStorage \<Rightarrow> LocalStorage" where
  "removeBudget cat today ls =
     (case getBudgets today ls of (budgets, ls') \<Rightarrow>
        saveBudgets (filter (\<lambda>b. \<not> isBudgetOf cat today b) budgets) ls')"

definition getBudgetStatus ::
  "Category \<Rightarrow> JsDate \<Rightarrow> LocalStorage \<Rightarrow> CategoryBudgetStatus option \<times> LocalStorage" where
  "getBudgetStatus cat today ls =
     (case getBudgetForCategory cat today ls of (budgetAmt, ls') \<Rightarrow>
        if budgetAmt = 0 then (None, ls')
        else (let spentAmt = getCategorySpending cat (fullYear today) (monthIndex today) ls';
                  remainingAmt = numSub (Finite budgetAmt) spentAmt;
                  pct = numMul (numDiv spentAmt (Finite budgetAmt)) (Finite 100);
                  st = (if numGreaterEq pct (Finite 90) then red
                        else if numGreaterEq pct (Finite 70) then yellow
                        else green)
              in (Some \<lparr>statusCategory = cat, budgetAmount = budgetAmt, spentAmount = spentAmt,
                         remainingAmount = remainingAmt, percentage = pct, status = st\<rparr>, ls')))"

text \<open>\<open>CATEGORIES.map(cat => getBudgetStatus(cat))\<close>, each call on the storage the last left.\<close>

fun mapBudgetStatus ::
  "Category list \<Rightarrow> JsDate \<Rightarrow> LocalStorage \<Rightarrow> CategoryBudgetStatus option list \<times> LocalStorage" where
  "mapBudgetStatus [] today ls = ([], ls)"
| "mapBudgetStatus (cat # cats) today ls =
     (case getBudgetStatus cat today ls of (r, ls1) \<Rightarrow>
        (case mapBudgetStatus cats today ls1 of (rs, ls2) \<Rightarrow> (r # rs, ls2)))"

definition getAllBudgetStatuses :: "JsDate \<Rightarrow> LocalStorage \<Rightarrow> CategoryBudgetStatus list \<times> LocalStorage" where
  "getAllBudgetStatuses today ls =
     (case mapBudgetStatus CATEGORIES today ls of (rs, ls') \<Rightarrow>
        (map the (filter (\<lambda>r. r \<noteq> None) rs), ls'))"

section \<open>Streaks and achievements (gamification.ts)\<close>

text \<open>
  \<open>today\<close> is \<open>new Date().toISOString().split('T')[0]\<close> and \<open>yesterday\<close> the value of
  \<open>getYesterday()\<close>, both date strings read from the clock.
\<close>

definition getStreakData :: "LocalStorage \<Rightarrow> StreakData" where
  "getStreakData ls =
     (case streakItem ls of
        Some stored \<Rightarrow> stored
      | None \<Rightarrow> \<lparr>currentStreak = 0, longestStreak = 0, lastEntryDate = [],
                 totalDaysWithEntries = 0\<rparr>)"

definition ACHIEVEMENT_DEFINITIONS :: "Achievement list" where
  "ACHIEVEMENT_DEFINITIONS =
     [\<lparr>achievementId = ''first_entry'', achievementName = ''Getting Started'', isUnlocked = False\<rparr>,
      \<lparr>achievementId = ''week_warrior'', achievementName = ''Week Warrior'', isUnlocked = False\<rparr>,
      \<lparr>achievementId = ''month_master'', achievementName = ''Month Master'', isUnlocked = False\<rparr>,
      \<lparr>achievementId = ''consistent_tracker'', achievementName = ''Consistent Tracker'',
        isUnlocked = False\<rparr>,
      \<lparr>achievementId = ''saver'', achievementName = ''Smart Saver'', isUnlocked = False\<rparr>,
      \<lparr>achievementId = ''budget_master'', achievementName = ''Budget Master'', isUnlocked = False\<rparr>]"

definition getAchievements :: "LocalStorage \<Rightarrow> Achievement list" where
  "getAchievements ls =
     (case achievementsItem ls of
        Some unlocked \<Rightarrow>
          map (\<lambda>ach. ach\<lparr>isUnlocked := List.member unlocked (achievementId ach)\<rparr>)
            ACHIEVEMENT_DEFINITIONS
      | None \<Rightarrow> ACHIEVEMENT_DEFINITIONS)"

definition unlockAchievement :: "string \<Rightarrow> LocalStorage \<Rightarrow> bool \<times> LocalStorage" where
  "unlockAchievement ident ls =
     (case find (\<lambda>a. achievementId a = ident) (getAchievements ls) of
        None \<Rightarrow> (False, ls)
      | Some achievement \<Rightarrow>
          if isUnlocked achievement then (False, ls)
          else (let unlocked = (case achievementsItem ls of None \<Rightarrow> [] | Some stored \<Rightarrow> stored)
                in if \<not> List.member unlocked ident
                   then (True, ls\<lparr>achievementsItem := Some (unlocked @ [ident])\<rparr>)
                   else (False, ls)))"

definition checkStreakAchievements :: "nat \<Rightarrow> LocalStorage \<Rightarrow> LocalStorage" where
  "checkStreakAchievements current ls =
     (let entries = getEntries ls;
          ls1 = (if length entries = 1 then snd (unlockAchievement ''first_entry'' ls) else ls);
          ls2 = (if current \<ge> 7 then snd (unlockAchievement ''week_warrior'' ls1) else ls1);
          ls3 = (if current \<ge> 30 then snd (unlockAchievement ''month_master'' ls2) else ls2)
      in if current \<ge> 90 then snd (unlockAchievement ''consistent_tracker'' ls3) else ls3)"

definition updateStreak ::
  "string \<Rightarrow> string \<Rightarrow> string \<Rightarrow> LocalStorage \<Rightarrow> StreakData \<times> LocalStorage" where
  "updateStreak entryDate today yesterday ls =
     (let streak = getStreakData ls in
      if entryDate = today \<or> entryDate = yesterday
      then (let streak1 =
                  (if lastEntryDate streak = yesterday \<or> lastEntryDate streak = []
                   then streak\<lparr>currentStreak := currentStreak streak + 1\<rparr>
                   else if lastEntryDate streak \<noteq> today
                   then streak\<lparr>currentStreak := 1\<rparr>
                   else streak);
                streak2 = streak1\<lparr>lastEntryDate := today\<rparr>;
                streak3 = streak2\<lparr>longestStreak := max (longestStreak streak2) (currentStreak streak2)\<rparr>;
                streak4 = streak3\<lparr>totalDaysWithEntries := totalDaysWithEntries streak3 + 1\<rparr>;
                ls1 = ls\<lparr>streakItem := Some streak4\<rparr>
            in (streak4, checkStreakAchievements (currentStreak streak4) ls1))
      else (streak, ls))"

definition validateStreak :: "string \<Rightarrow> string \<Rightarrow> LocalStorage \<Rightarrow> LocalStorage" where
  "validateStreak today yesterday ls =
     (let streak = getStreakData ls in
      if lastEntryDate streak \<noteq> today \<and> lastEntryDate streak \<noteq> yesterday
      then ls\<lparr>streakItem := Some (streak\<lparr>currentStreak := 0\<rparr>)\<rparr>
      else ls)"

section \<open>The trend rule as the specification words it\<close>

text \<open>
  The number of adjacent pairs \<open>(v[i], v[i + 1])\<close> of a sequence listed newest first
  whose newer value is strictly greater, respectively strictly smaller, than the older.
\<close>

definition strictlyGreaterPairs :: "Number list \<Rightarrow> nat" where
  "strictlyGreaterPairs v =
     length (filter (\<lambda>i. numGreater (v ! i) (v ! (i + 1))) [0..<length v - 1])"

definition strictlySmallerPairs :: "Number list \<Rightarrow> nat" where
  "strictlySmallerPairs v =
     length (filter (\<lambda>i. numLess (v ! i) (v ! (i + 1))) [0..<length v - 1])"

text \<open>
  The specification's majority vote over a window of \<open>N\<close> values: at least
  \<open>ceiling (N / 2)\<close> strictly greater pairs give the first label, at least
  \<open>ceiling (N / 2)\<close> strictly smaller pairs the second, anything else \<open>stable\<close>.
\<close>

definition spec_trend :: "Number list \<Rightarrow> string \<Rightarrow> string \<Rightarrow> string" where
  "spec_trend v upLabel downLabel =
     (if (length v + 1) div 2 \<le> strictlyGreaterPairs v then upLabel
      else if (length v + 1) div 2 \<le> strictlySmallerPairs v then downLabel
      else ''stable'')"

section \<open>Sample data\<close>

text \<open>
  A lifestyle expense of the given amount, category and date, as \<open>AddEntry\<close> stores it.
\<close>

definition sampleExpense :: "string \<Rightarrow> Category \<Rightarrow> real \<Rightarrow> string \<Rightarrow> int \<Rightarrow> Entry" where
  "sampleExpense ident cat value day stamp =
     \<lparr>entryId = ident, amount = value, entryType = expense, category = cat,
      categoryGroup = Some ''lifestyle'', priority = ''lifestyle'', date = day,
      entryNote = None, createdAt = stamp\<rparr>"

text \<open>An income entry; \<open>AddEntry\<close> files every income under the group \<open>needs\<close>.\<close>

definition sampleIncome :: "string \<Rightarrow> real \<Rightarrow> string \<Rightarrow> int \<Rightarrow> Entry" where
  "sampleIncome ident value day stamp =
     \<lparr>entryId = ident, amount = value, entryType = income, category = FoodGroceries,
      categoryGroup = Some ''needs'', priority = ''needs'', date = day,
      entryNote = None, createdAt = stamp\<rparr>"

definition emptyStorage :: LocalStorage where
  "emptyStorage =
     \<lparr>entriesItem = None, budgetsItem = None, budgetMonthItem = None, streakItem = None,
      achievementsItem = None\<rparr>"

text \<open>
  15 March 2024, and a store with 200 spent in March, 100 in February and 100 in
  January, against an income of 1000 in each of the three months.
\<close>

definition midMarch :: JsDate where
  "midMarch = \<lparr>fullYear = 2024, monthIndex = 2, dayOfMonth = 15\<rparr>"

definition trendStorage :: LocalStorage where
  "trendStorage =
     emptyStorage\<lparr>entriesItem :=
       Some [sampleExpense ''a'' Shopping 100 ''2024-01-10'' 1,
             sampleExpense ''b'' Shopping 100 ''2024-02-10'' 2,
             sampleExpense ''c'' Shopping 200 ''2024-03-10'' 3,
             sampleIncome ''d'' 1000 ''2024-01-01'' 4,
             sampleIncome ''e'' 1000 ''2024-02-01'' 5,
             sampleIncome ''f'' 1000 ''2024-03-01'' 6]\<rparr>"

text \<open>A store with 200 spent in March 2024, 100 in February and 300 in January.\<close>

definition zigzagStorage :: LocalStorage where
  "zigzagStorage =
     emptyStorage\<lparr>entriesItem :=
       Some [sampleExpense ''a'' Shopping 300 ''2024-01-10'' 1,
             sampleExpense ''b'' Shopping 100 ''2024-02-10'' 2,
             sampleExpense ''c'' Shopping 200 ''2024-03-10'' 3]\<rparr>"

section \<open>The formulas as the specification words them\<close>

text \<open>
  The specification's formulas, taken as written, over the exact values:
  \<open>round(100*(income-expenses)/income)\<close>, the weighted sum divided by the weight sum
  and rounded, \<open>round(100*(current-previous)/previous)\<close> and \<open>100*spent/budget\<close>.
\<close>

definition spec_savingsRate :: "real \<Rightarrow> real \<Rightarrow> int" where
  "spec_savingsRate incomeTotal expenses =
     (if incomeTotal \<le> 0 then 0 else round (100 * (incomeTotal - expenses) / incomeTotal))"

definition spec_weightedAverage :: "real list \<Rightarrow> int" where
  "spec_weightedAverage vs =
     (if vs = [] then 0
      else round ((\<Sum>i<length vs. vs ! i * real (length vs - i)) /
                  (\<Sum>i<length vs. real (length vs - i))))"

definition spec_growthPercent :: "real \<Rightarrow> real \<Rightarrow> int" where
  "spec_growthPercent cur prev = round (100 * (cur - prev) / prev)"

definition spec_percentage :: "real \<Rightarrow> real \<Rightarrow> real" where
  "spec_percentage spent budget = 100 * spent / budget"

definition spec_status :: "real \<Rightarrow> StatusTier" where
  "spec_status pct = (if 90 \<le> pct then red else if 70 \<le> pct then yellow else green)"

text \<open>The double that a decimal literal such as \<open>8.1\<close> denotes: the nearest one.\<close>

definition decimal :: "real \<Rightarrow> real" where
  "decimal q = fl q"

section \<open>Numbers that are not negative\<close>

definition nonNegative :: "Number \<Rightarrow> bool" where
  "nonNegative n = (case n of Finite x \<Rightarrow> 0 \<le> x | Infinity \<Rightarrow> True | NegInfinity \<Rightarrow> False | NaN \<Rightarrow> False)"

definition atLeastOne :: "Number \<Rightarrow> bool" where
  "atLeastOne n = (case n of Finite x \<Rightarrow> 1 \<le> x | Infinity \<Rightarrow> True | NegInfinity \<Rightarrow> False | NaN \<Rightarrow> False)"

section \<open>The export format as the specification words it\<close>

text \<open>The fields of a line of comma-separated text.\<close>

fun splitOn :: "char \<Rightarrow> string \<Rightarrow> string list" where
  "splitOn c [] = [[]]"
| "splitOn c (x # xs) =
     (if x = c then [] # splitOn c xs
      else (case splitOn c xs of [] \<Rightarrow> [[x]] | w # ws \<Rightarrow> (x # w) # ws))"

definition enclosedInQuotes :: "string \<Rightarrow> bool" where
  "enclosedInQuotes field = (2 \<le> length field \<and> hd field = CHR 0x22 \<and> last field = CHR 0x22)"

text \<open>Every field of the line is enclosed in double quotes.\<close>

definition spec_everyFieldQuoted :: "string \<Rightarrow> bool" where
  "spec_everyFieldQuoted line = list_all enclosedInQuotes (splitOn CHR '','' line)"

section \<open>Sample data for the export\<close>

text \<open>The decimal digits of a natural number, the rendering of a whole amount.\<close>

fun showNat :: "nat \<Rightarrow> string" where
  "showNat n =
     (if n < 10 then [char_of (48 + n)] else showNat (n div 10) @ [char_of (48 + n mod 10)])"

definition showWhole :: "real \<Rightarrow> string" where
  "showWhole x = showNat (nat \<lfloor>x\<rfloor>)"

definition exportStorage :: LocalStorage where
  "exportStorage =
     emptyStorage\<lparr>entriesItem :=
       Some [(sampleExpense ''a'' Shopping 500 ''2024-03-10'' 1)\<lparr>entryNote := Some ''shoes''\<rparr>,
             sampleIncome ''b'' 1000 ''2024-03-01'' 2]\<rparr>"

section \<open>Sample data for budgets and streaks\<close>

text \<open>
  A store last tracked in February 2024, holding a Shopping budget of 1000 for February
  and a Fuel budget of 300 for January, with 899 spent on Shopping in March.
\<close>

definition budgetStorage :: LocalStorage where
  "budgetStorage =
     emptyStorage
       \<lparr>entriesItem := Some [sampleExpense ''a'' Shopping 899 ''2024-03-10'' 1],
        budgetsItem :=
          Some [\<lparr>budgetCategory = Shopping, budgetValue = 1000, budgetMonth = 1,
                  budgetYear = 2024\<rparr>,
                \<lparr>budgetCategory = Fuel, budgetValue = 300, budgetMonth = 0,
                  budgetYear = 2024\<rparr>],
        budgetMonthItem := Some \<lparr>year = 2024, month = 1\<rparr>\<rparr>"

definition lateMarch :: JsDate where
  "lateMarch = \<lparr>fullYear = 2024, monthIndex = 2, dayOfMonth = 28\<rparr>"

text \<open>A store whose last streak entry is five days old.\<close>

definition staleStorage :: LocalStorage where
  "staleStorage =
     emptyStorage
       \<lparr>streakItem := Some \<lparr>currentStreak = 5, longestStreak = 9,
                              lastEntryDate = ''2024-03-10'', totalDaysWithEntries = 20\<rparr>\<rparr>"

text \<open>A store whose last streak entry was made on 15 March 2024.\<close>

definition sameDayStorage :: LocalStorage where
  "sameDayStorage =
     emptyStorage
       \<lparr>streakItem := Some \<lparr>currentStreak = 3, longestStreak = 7,
                              lastEntryDate = ''2024-03-15'', totalDaysWithEntries = 12\<rparr>\<rparr>"

section \<open>The rows a rollover creates\<close>

text \<open>
  For every budget row of the last tracked month, a row of the same category and amount
  in the month of \<open>today\<close>.
\<close>

definition carried :: "JsDate \<Rightarrow> YearMonth \<Rightarrow> Budget list \<Rightarrow> Budget list" where
  "carried today lastTracked old =
     map (\<lambda>b. \<lparr>budgetCategory = budgetCategory b, budgetValue = budgetValue b,
               budgetMonth = monthIndex today, budgetYear = fullYear today\<rparr>)
       (filter (\<lambda>b. budgetMonth b = month lastTracked \<and> budgetYear b = year lastTracked) old)"

section \<open>The current and the previous calendar month\<close>

definition previousMonth :: "JsDate \<Rightarrow> YearMonth" where
  "previousMonth today =
     (if monthIndex today = 0 then \<lparr>year = fullYear today - 1, month = 11\<rparr>
      else \<lparr>year = fullYear today, month = monthIndex today - 1\<rparr>)"

text \<open>The spend on a category in the month of \<open>today\<close> and in the month before it.\<close>

definition currentMonthSpend :: "Category \<Rightarrow> JsDate \<Rightarrow> LocalStorage \<Rightarrow> Number" where
  "currentMonthSpend cat today ls =
     getCategorySpending cat (fullYear today) (monthIndex today) ls"

definition previousMonthSpend :: "Category \<Rightarrow> JsDate \<Rightarrow> LocalStorage \<Rightarrow> Number" where
  "previousMonthSpend cat today ls =
     getCategorySpending cat (year (previousMonth today)) (month (previousMonth today)) ls"

section \<open>Sample data for growth and budget status\<close>

text \<open>
  Shopping: nothing in February 2024, 500 in March. Eating out: 500 in February, 750 in
  March.
\<close>

definition growthStorage :: LocalStorage where
  "growthStorage =
     emptyStorage\<lparr>entriesItem :=
       Some [sampleExpense ''a'' EatingOut 500 ''2024-02-20'' 1,
             sampleExpense ''b'' Shopping 500 ''2024-03-05'' 2,
             sampleExpense ''c'' EatingOut 750 ''2024-03-10'' 3]\<rparr>"

text \<open>Shopping: 1000 in February 2024 and 1145 in March.\<close>

definition halfPercentStorage :: LocalStorage where
  "halfPercentStorage =
     emptyStorage\<lparr>entriesItem :=
       Some [sampleExpense ''a'' Shopping 1000 ''2024-02-20'' 1,
             sampleExpense ''b'' Shopping 1145 ''2024-03-05'' 2]\<rparr>"

definition endOfMarch :: JsDate where
  "endOfMarch = \<lparr>fullYear = 2024, monthIndex = 2, dayOfMonth = 31\<rparr>"

text \<open>
  A Shopping budget of the given amount for March 2024, tracked in March, and one
  Shopping expense of the given amount in that month.
\<close>

definition tierStorage :: "real \<Rightarrow> real \<Rightarrow> LocalStorage" where
  "tierStorage budget spent =
     emptyStorage
       \<lparr>entriesItem := Some [sampleExpense ''a'' Shopping spent ''2024-03-10'' 1],
        budgetsItem :=
          Some [\<lparr>budgetCategory = Shopping, budgetValue = budget, budgetMonth = 2,
                  budgetYear = 2024\<rparr>],
        budgetMonthItem := Some \<lparr>year = 2024, month = 2\<rparr>\<rparr>"

section \<open>The storages the streak operations reach\<close>

text \<open>
  A storage is reached from one without a stored streak by \<open>updateStreak\<close>,
  \<open>validateStreak\<close> and any step that leaves the streak item alone; no other function
  writes it.
\<close>

inductive reachedStreak :: "LocalStorage \<Rightarrow> bool" where
  fresh: "streakItem ls = None \<Longrightarrow> reachedStreak ls"
| updated: "reachedStreak ls \<Longrightarrow> reachedStreak (snd (updateStreak entryDate today yesterday ls))"
| validated: "reachedStreak ls \<Longrightarrow> reachedStreak (validateStreak today yesterday ls)"
| other: "reachedStreak ls \<Longrightarrow> streakItem ls' = streakItem ls \<Longrightarrow> reachedStreak ls'"

section \<open>Properties of the rounding\<close>

text \<open>
  Rounding keeps the sign, and a value of at least 1 stays at least 1; a sum to which a
  positive amount is added is therefore never negative and never \<open>NaN\<close>.
\<close>

lemma roundHalfEven_ge_floor: "\<lfloor>x\<rfloor> \<le> roundHalfEven x"
  by (simp add: roundHalfEven_def Let_def)

lemma roundHalfEven_nonneg: "0 \<le> x \<Longrightarrow> 0 \<le> roundHalfEven x"
  using roundHalfEven_ge_floor[of x] by (simp add: order_trans[where y = "\<lfloor>x\<rfloor>"])

lemma fl_nonneg:
  assumes "0 \<le> x"
  shows "0 \<le> fl x"
proof (cases "x = 0")
  case True
  then show ?thesis by (simp add: fl_def)
next
  case False
  define e where "e = max (floorLog2 \<bar>x\<bar> - 52) (- 1074)"
  have p: "(0::real) < 2 powi e" by simp
  with assms have "0 \<le> x / 2 powi e" by simp
  then have "0 \<le> roundHalfEven (x / 2 powi e)" by (rule roundHalfEven_nonneg)
  with p have "(0::real) \<le> of_int (roundHalfEven (x / 2 powi e)) * 2 powi e" by simp
  with False show ?thesis by (simp add: fl_def Let_def e_def)
qed

lemma log2Up_lower:
  "1 \<le> x \<Longrightarrow> 0 \<le> log2Up x \<and> 2 powi (log2Up x) \<le> x"
proof (induction x rule: log2Up.induct)
  case (1 x)
  show ?case
  proof (cases "x < 2")
    case True
    with "1.prems" show ?thesis by (simp add: log2Up.simps[of x])
  next
    case False
    then have "1 \<le> x / 2" by simp
    with "1.IH"[OF False] have ih: "0 \<le> log2Up (x / 2)" "2 powi (log2Up (x / 2)) \<le> x / 2"
      by auto
    have "(2::real) powi (1 + log2Up (x / 2)) = 2 * 2 powi (log2Up (x / 2))"
      by (simp add: power_int_add)
    with ih False show ?thesis by (simp add: log2Up.simps[of x])
  qed
qed

lemma fl_ge_one:
  assumes "1 \<le> x"
  shows "1 \<le> fl x"
proof -
  define k where "k = log2Up x"
  from log2Up_lower[OF assms] have k: "0 \<le> k" "2 powi k \<le> x" by (simp_all add: k_def)
  have e: "max (floorLog2 \<bar>x\<bar> - 52) (- 1074) = k - 52"
    using assms k(1) by (simp add: floorLog2_def k_def)
  have p: "(0::real) < 2 powi (k - 52)" by simp
  have split: "(2::real) ^ 52 * 2 powi (k - 52) = 2 powi k"
    by (simp add: power_int_diff)
  with k(2) p have "2 ^ 52 \<le> x / 2 powi (k - 52)"
    by (simp add: pos_le_divide_eq)
  then have "(2::int) ^ 52 \<le> \<lfloor>x / 2 powi (k - 52)\<rfloor>"
    by (simp add: le_floor_iff)
  with roundHalfEven_ge_floor[of "x / 2 powi (k - 52)"]
  have "(2::int) ^ 52 \<le> roundHalfEven (x / 2 powi (k - 52))" by linarith
  then have "(2::real) ^ 52 \<le> of_int (roundHalfEven (x / 2 powi (k - 52)))"
    by (metis of_int_le_iff of_int_numeral of_int_power)
  with p have "(2::real) ^ 52 * 2 powi (k - 52)
                 \<le> of_int (roundHalfEven (x / 2 powi (k - 52))) * 2 powi (k - 52)"
    by (simp add: mult_right_mono)
  with split have "(2::real) powi k
                     \<le> of_int (roundHalfEven (x / 2 powi (k - 52))) * 2 powi (k - 52)"
    by (simp only:)
  moreover have "(1::real) \<le> 2 powi k"
    using k(1) by (simp add: one_le_power_int)
  moreover have "fl x = of_int (roundHalfEven (x / 2 powi (k - 52))) * 2 powi (k - 52)"
    using assms e by (simp add: fl_def Let_def)
  ultimately show ?thesis by linarith
qed

lemma MAX_VALUE_pos: "0 < MAX_VALUE"
  by (simp add: MAX_VALUE_def)

lemma toNumber_nonNegative: "0 \<le> x \<Longrightarrow> nonNegative (toNumber x)"
  using fl_nonneg[of x] MAX_VALUE_pos
  by (simp add: toNumber_def Let_def nonNegative_def)

lemma toNumber_atLeastOne: "1 \<le> x \<Longrightarrow> atLeastOne (toNumber x)"
  using fl_ge_one[of x] MAX_VALUE_pos
  by (simp add: toNumber_def Let_def atLeastOne_def)

lemma numAdd_nonNegative:
  "nonNegative s \<Longrightarrow> 0 \<le> a \<Longrightarrow> nonNegative (numAdd s (Finite a))"
  by (cases s) (simp_all add: nonNegative_def toNumber_nonNegative[unfolded nonNegative_def])

lemma numAdd_atLeastOne:
  "nonNegative s \<Longrightarrow> 1 \<le> a \<Longrightarrow> atLeastOne (numAdd s (Finite a))"
  by (cases s) (simp_all add: nonNegative_def atLeastOne_def toNumber_atLeastOne[unfolded atLeastOne_def])

lemma atLeastOne_nonNegative: "atLeastOne n \<Longrightarrow> nonNegative n"
  by (cases n) (simp_all add: nonNegative_def atLeastOne_def)

lemma atLeastOne_greater: "atLeastOne n \<Longrightarrow> numGreater n (Finite 0)"
  by (cases n) (simp_all add: atLeastOne_def numGreater_def)

lemma nonNegative_greater: "nonNegative n \<Longrightarrow> numGreater n (Finite 0) = (n \<noteq> Finite 0)"
  by (cases n) (auto simp add: nonNegative_def numGreater_def)

section \<open>Savings rate and weighted average\<close>

text \<open>The equations by which the arithmetic of a concrete input is evaluated.\<close>

lemmas number_eval = fl_def floorLog2_def roundHalfEven_def Let_def
  toNumber_def MAX_VALUE_def numSub_def numGreater_def numLessEq_def numGreaterEq_def
  signedInfinity_def decimal_def

text \<open>
  Claim C8, as the code has it. For every income and expenses, \<open>calculateSavingsRate\<close>
  returns 0 whenever the income is at most 0, and otherwise
  \<open>Math.round(((income - expenses) / income) * 100)\<close>, where the difference, the
  quotient and the product are each rounded to a double, in this order; for an income of
  1000 and no expenses it returns 100.
\<close>

theorem calculateSavingsRate_in_doubles:
  "calculateSavingsRate incomeTotal expenses =
     (if numLessEq incomeTotal (Finite 0) then Finite 0
      else mathRound (numMul (numDiv (numSub incomeTotal expenses) incomeTotal) (Finite 100)))
   \<and> calculateSavingsRate (Finite 1000) (Finite 0) = Finite 100"
proof
  show "calculateSavingsRate incomeTotal expenses =
     (if numLessEq incomeTotal (Finite 0) then Finite 0
      else mathRound (numMul (numDiv (numSub incomeTotal expenses) incomeTotal) (Finite 100)))"
    by (simp add: calculateSavingsRate_def Let_def)
  show "calculateSavingsRate (Finite 1000) (Finite 0) = Finite 100"
    by (simp add: calculateSavingsRate_def number_eval)
qed

text \<open>
  Claim C8 as stated fails. For an income of 1000 and expenses of 855 the quotient
  0.145 is a double just below the exact value and its hundredfold is
  14.499999999999998, which rounds to 14, while \<open>100 * 145 / 1000\<close> is 14.5 and
  rounds to 15; for 40 and 17 the code returns 57 and the formula gives 58.
\<close>

theorem savingsRate_formula_counterexample:
  "calculateSavingsRate (Finite 1000) (Finite 855) = Finite 14
   \<and> spec_savingsRate 1000 855 = 15
   \<and> calculateSavingsRate (Finite 40) (Finite 17) = Finite 57
   \<and> spec_savingsRate 40 17 = 58"
  by (simp add: calculateSavingsRate_def spec_savingsRate_def number_eval round_def)

text \<open>
  The two running sums of the \<open>forEach\<close> loop, started at any index with any
  accumulator; the sum of the weights of a list that is not empty is greater than 0.
\<close>

lemma forEachWeight_foldl:
  "forEachWeight len k (drop k vs) (a, b) =
     (foldl (\<lambda>s i. numAdd s (numMul (vs ! i) (Finite (real (len - i))))) a [k..<length vs],
      foldl (\<lambda>s i. numAdd s (Finite (real (len - i)))) b [k..<length vs])"
proof (induction "length vs - k" arbitrary: k a b)
  case 0
  then show ?case by simp
next
  case (Suc n)
  then have k: "k < length vs" by simp
  from Suc(2) have n: "n = length vs - Suc k" by simp
  have d: "drop k vs = vs ! k # drop (Suc k) vs"
    using k by (simp add: Cons_nth_drop_Suc)
  have u: "[k..<length vs] = k # [Suc k..<length vs]"
    using k by (simp add: upt_conv_Cons)
  show ?case
    unfolding d u by (simp add: Let_def Suc(1)[OF n])
qed

lemma weights_atLeastOne:
  assumes "nonNegative s" and "is \<noteq> []" and "\<forall>i\<in>set is. i < len"
  shows "atLeastOne (foldl (\<lambda>s i. numAdd s (Finite (real (len - i)))) s is)"
  using assms
proof (induction "is" arbitrary: s)
  case Nil
  then show ?case by simp
next
  case (Cons i rest)
  from Cons.prems(3) have "1 \<le> real (len - i)" by simp
  with Cons.prems(1) have one: "atLeastOne (numAdd s (Finite (real (len - i))))"
    by (rule numAdd_atLeastOne)
  show ?case
  proof (cases "rest = []")
    case True
    with one show ?thesis by simp
  next
    case False
    from Cons.IH[OF atLeastOne_nonNegative[OF one] False] Cons.prems(3)
    show ?thesis by simp
  qed
qed

text \<open>
  Claim C7, as the code has it. For every list of values, \<open>calculateWeightedAverage\<close>
  gives the value at index \<open>i\<close> the weight \<open>length - i\<close> (the length at index 0, down
  to 1 for the last element), adds the products \<open>value * weight\<close> and the weights in
  index order, each product and each partial sum rounded to a double, and returns
  \<open>Math.round\<close> of the rounded quotient of the two sums; the empty list yields 0. The
  results for \<open>[]\<close>, \<open>[100]\<close> and \<open>[200, 100]\<close> are 0, 100 and 167.
\<close>

theorem calculateWeightedAverage_in_doubles:
  "calculateWeightedAverage vs =
     (if vs = [] then Finite 0
      else mathRound
             (numDiv
                (foldl (\<lambda>s i. numAdd s (numMul (vs ! i) (Finite (real (length vs - i)))))
                   (Finite 0) [0..<length vs])
                (foldl (\<lambda>s i. numAdd s (Finite (real (length vs - i))))
                   (Finite 0) [0..<length vs])))
   \<and> calculateWeightedAverage [] = Finite 0
   \<and> calculateWeightedAverage [Finite 100] = Finite 100
   \<and> calculateWeightedAverage [Finite 200, Finite 100] = Finite 167"
proof -
  have general: "calculateWeightedAverage vs =
     (if vs = [] then Finite 0
      else mathRound
             (numDiv
                (foldl (\<lambda>s i. numAdd s (numMul (vs ! i) (Finite (real (length vs - i)))))
                   (Finite 0) [0..<length vs])
                (foldl (\<lambda>s i. numAdd s (Finite (real (length vs - i))))
                   (Finite 0) [0..<length vs])))"
  proof (cases "vs = []")
    case True
    then show ?thesis by (simp add: calculateWeightedAverage_def)
  next
    case False
    then have ne: "[0..<length vs] \<noteq> []" by simp
    have "atLeastOne (foldl (\<lambda>s i. numAdd s (Finite (real (length vs - i))))
                        (Finite 0) [0..<length vs])"
      by (rule weights_atLeastOne[OF _ ne]) (simp_all add: nonNegative_def)
    then have pos: "numGreater (foldl (\<lambda>s i. numAdd s (Finite (real (length vs - i))))
                        (Finite 0) [0..<length vs]) (Finite 0)"
      by (rule atLeastOne_greater)
    from forEachWeight_foldl[of "length vs" 0 vs "Finite 0" "Finite 0"] False pos
    show ?thesis by (simp add: calculateWeightedAverage_def)
  qed
  have e0: "calculateWeightedAverage [] = Finite 0"
    by (simp add: calculateWeightedAverage_def)
  have e1: "calculateWeightedAverage [Finite 100] = Finite 100"
    by (simp add: calculateWeightedAverage_def number_eval)
  have e2: "calculateWeightedAverage [Finite 200, Finite 100] = Finite 167"
    by (simp add: calculateWeightedAverage_def number_eval)
  from general e0 e1 e2 show ?thesis by blast
qed

text \<open>
  Claim C7 as stated fails. For the doubles written 4824.9 and 4466.7 the weighted
  sum \<open>2 * 4824.9 + 4466.7\<close> lies just below 14116.5 and is rounded to 14116.5, so the
  code returns \<open>Math.round(4705.5) = 4706\<close>, while the weighted sum divided by the
  weight sum is below 4705.5 and its nearest integer is 4705.
\<close>

theorem weightedAverage_exact_counterexample:
  "decimal 4824.9 = 2652516826428211 / 549755813888
   \<and> decimal 4466.7 = 4911188587787059 / 1099511627776
   \<and> calculateWeightedAverage [Finite (decimal 4824.9), Finite (decimal 4466.7)] = Finite 4706
   \<and> spec_weightedAverage [decimal 4824.9, decimal 4466.7] = 4705"
proof -
  have a: "decimal 4824.9 = 2652516826428211 / 549755813888"
    by (simp add: number_eval)
  have b: "decimal 4466.7 = 4911188587787059 / 1099511627776"
    by (simp add: number_eval)
  have c: "calculateWeightedAverage [Finite (2652516826428211 / 549755813888),
             Finite (4911188587787059 / 1099511627776)] = Finite 4706"
    by (simp add: calculateWeightedAverage_def number_eval)
  have d: "spec_weightedAverage [2652516826428211 / 549755813888,
             4911188587787059 / 1099511627776] = 4705"
    by (simp add: spec_weightedAverage_def round_def lessThan_Suc)
  from a b c d show ?thesis by (simp only:)
qed

section \<open>Trends\<close>

lemmas date_eval = parseDate_def digitValue_def daysInMonth_def isLeapYear_def setMonth_def
  getMonthDate_def inMonth_def
lemmas store_eval = getEntries_def getEntriesByMonth_def getMonthlyData_def addToTotals_def
  entryGroup_def getCategorySpending_def sampleExpense_def sampleIncome_def emptyStorage_def

lemma countStep_pair:
  "countStep v i (a, b) =
     (if numGreater (v ! i) (v ! (i + 1)) then (a + 1, b)
      else if numLess (v ! i) (v ! (i + 1)) then (a, b + 1)
      else (a, b))"
  by (simp add: countStep_def)

lemma not_greater_and_less: "\<not> (numGreater x y \<and> numLess x y)"
  by (cases x; cases y) (simp_all add: numGreater_def)

lemma fold_countStep:
  "fold (countStep v) is (a, b) =
     (a + length (filter (\<lambda>i. numGreater (v ! i) (v ! (i + 1))) is),
      b + length (filter (\<lambda>i. numLess (v ! i) (v ! (i + 1))) is))"
proof (induction "is" arbitrary: a b)
  case Nil
  show ?case by simp
next
  case (Cons i rest)
  show ?case
    using not_greater_and_less[of "v ! i" "v ! (i + 1)"]
    by (simp add: countStep_pair Cons.IH del: One_nat_def)
qed

lemma countPairs_eq: "countPairs v = (strictlyGreaterPairs v, strictlySmallerPairs v)"
  by (simp add: countPairs_def fold_countStep strictlyGreaterPairs_def strictlySmallerPairs_def)

lemma length_monthlyExpenses: "length (monthlyExpenses months today ls) = months"
  by (simp add: monthlyExpenses_def)

lemma length_monthlySavingsRates: "length (monthlySavingsRates months today ls) = months"
  by (simp add: monthlySavingsRates_def)

text \<open>
  What the code computes for every window of at least two months: the threshold is
  \<open>floor (N / 2)\<close>, and the test for the strictly greater pairs comes first.
\<close>

lemma trend_threshold:
  assumes "2 \<le> months"
  shows "getExpenseTrend months today ls =
           (if months div 2 \<le> strictlyGreaterPairs (monthlyExpenses months today ls)
            then ''rising''
            else if months div 2 \<le> strictlySmallerPairs (monthlyExpenses months today ls)
            then ''falling''
            else ''stable'')
       \<and> getSavingsTrend months today ls =
           (if months div 2 \<le> strictlyGreaterPairs (monthlySavingsRates months today ls)
            then ''improving''
            else if months div 2 \<le> strictlySmallerPairs (monthlySavingsRates months today ls)
            then ''declining''
            else ''stable'')"
  using assms
  by (simp add: getExpenseTrend_def getSavingsTrend_def Let_def countPairs_eq
      length_monthlyExpenses length_monthlySavingsRates)

text \<open>The months read on 15 March 2024, and the entries of the sample stores in them.\<close>

lemma midMarch_months:
  "getMonthDate 0 midMarch = \<lparr>year = 2024, month = 2\<rparr>"
  "getMonthDate 1 midMarch = \<lparr>year = 2024, month = 1\<rparr>"
  "getMonthDate (Suc 0) midMarch = \<lparr>year = 2024, month = 1\<rparr>"
  "getMonthDate 2 midMarch = \<lparr>year = 2024, month = 0\<rparr>"
  "getMonthDate (Suc (Suc 0)) midMarch = \<lparr>year = 2024, month = 0\<rparr>"
  by code_simp+

lemma trendStorage_months:
  "getEntriesByMonth 2024 2 trendStorage =
     [sampleIncome ''f'' 1000 ''2024-03-01'' 6, sampleExpense ''c'' Shopping 200 ''2024-03-10'' 3]"
  "getEntriesByMonth 2024 1 trendStorage =
     [sampleIncome ''e'' 1000 ''2024-02-01'' 5, sampleExpense ''b'' Shopping 100 ''2024-02-10'' 2]"
  "getEntriesByMonth 2024 (Suc 0) trendStorage =
     [sampleIncome ''e'' 1000 ''2024-02-01'' 5, sampleExpense ''b'' Shopping 100 ''2024-02-10'' 2]"
  "getEntriesByMonth 2024 0 trendStorage =
     [sampleIncome ''d'' 1000 ''2024-01-01'' 4, sampleExpense ''a'' Shopping 100 ''2024-01-10'' 1]"
  by code_simp+

lemma zigzagStorage_months:
  "getEntriesByMonth 2024 2 zigzagStorage = [sampleExpense ''c'' Shopping 200 ''2024-03-10'' 3]"
  "getEntriesByMonth 2024 1 zigzagStorage = [sampleExpense ''b'' Shopping 100 ''2024-02-10'' 2]"
  "getEntriesByMonth 2024 (Suc 0) zigzagStorage = [sampleExpense ''b'' Shopping 100 ''2024-02-10'' 2]"
  "getEntriesByMonth 2024 0 zigzagStorage = [sampleExpense ''a'' Shopping 300 ''2024-01-10'' 1]"
  by code_simp+

lemmas totals_eval = getMonthlyData_def addToTotals_def entryGroup_def sampleExpense_def
  sampleIncome_def upt_rec

lemma trend_sample_totals:
  "monthlyExpenses 3 midMarch trendStorage = [Finite 200, Finite 100, Finite 100]"
  by (simp add: monthlyExpenses_def midMarch_months trendStorage_months totals_eval number_eval)

lemma zigzag_sample_totals:
  "monthlyExpenses 3 midMarch zigzagStorage = [Finite 200, Finite 100, Finite 300]"
  by (simp add: monthlyExpenses_def midMarch_months zigzagStorage_months totals_eval number_eval)

text \<open>
  Claim C1 does not hold of the code. The claim asks for at least \<open>ceiling (N / 2)\<close>
  strictly greater comparisons before the trend is \<open>rising\<close>; the code compares the
  count with \<open>floor (N / 2)\<close>. At a window of three months with the totals 200, 100
  and 100, one comparison of two is strictly greater and the code answers \<open>rising\<close>;
  with the totals 200, 100 and 300, one comparison is strictly greater and one strictly
  smaller, both counts reach the threshold, and the code answers \<open>rising\<close> because it
  tests that count first. The rule of the claim answers \<open>stable\<close> in both cases.
\<close>

theorem getExpenseTrend_rising_on_one_rise:
  "monthlyExpenses 3 midMarch trendStorage = [Finite 200, Finite 100, Finite 100]
   \<and> strictlyGreaterPairs (monthlyExpenses 3 midMarch trendStorage) = 1
   \<and> strictlySmallerPairs (monthlyExpenses 3 midMarch trendStorage) = 0
   \<and> getExpenseTrend 3 midMarch trendStorage = ''rising''
   \<and> spec_trend (monthlyExpenses 3 midMarch trendStorage) ''rising'' ''falling'' = ''stable''
   \<and> monthlyExpenses 3 midMarch zigzagStorage = [Finite 200, Finite 100, Finite 300]
   \<and> strictlyGreaterPairs (monthlyExpenses 3 midMarch zigzagStorage) = 1
   \<and> strictlySmallerPairs (monthlyExpenses 3 midMarch zigzagStorage) = 1
   \<and> getExpenseTrend 3 midMarch zigzagStorage = ''rising''
   \<and> spec_trend (monthlyExpenses 3 midMarch zigzagStorage) ''rising'' ''falling'' = ''stable''"
  by (simp add: trend_sample_totals zigzag_sample_totals getExpenseTrend_def Let_def
      countPairs_eq strictlyGreaterPairs_def strictlySmallerPairs_def spec_trend_def
      numGreater_def upt_rec)

text \<open>
  The savings rates of the first sample store are 80, 90 and 90: one comparison of two
  is strictly smaller, and the savings trend is \<open>declining\<close>.
\<close>

lemma savings_trend_sample:
  "monthlySavingsRates 3 midMarch trendStorage = [Finite 80, Finite 90, Finite 90]
   \<and> getSavingsTrend 3 midMarch trendStorage = ''declining''"
proof -
  have r: "monthlySavingsRates 3 midMarch trendStorage = [Finite 80, Finite 90, Finite 90]"
    by (simp add: monthlySavingsRates_def calculateSavingsRate_def midMarch_months
        trendStorage_months totals_eval number_eval)
  then show ?thesis
    by (simp add: getSavingsTrend_def Let_def countPairs_eq strictlyGreaterPairs_def
        strictlySmallerPairs_def numGreater_def upt_rec)
qed

section \<open>Entry store\<close>

lemma findIndex_None: "(\<forall>x\<in>set xs. \<not> p x) \<Longrightarrow> findIndex p xs = None"
  by (induction xs) auto

text \<open>
  Claim C9. For every entry store and every id that does not occur in it,
  \<open>updateEntry\<close> returns \<open>null\<close> and \<open>deleteEntry\<close> returns \<open>false\<close>, and in both cases
  the storage is returned exactly as it was: nothing is written on the failure path.
\<close>

theorem missing_id_no_write:
  assumes "ident \<notin> entryId ` set (getEntries ls)"
  shows "updateEntry ident updates ls = (None, ls) \<and> deleteEntry ident ls = (False, ls)"
proof
  have none: "\<forall>e\<in>set (getEntries ls). \<not> entryId e = ident"
    using assms by auto
  from findIndex_None[OF this] show "updateEntry ident updates ls = (None, ls)"
    by (simp add: updateEntry_def)
  from none have "filter (\<lambda>e. entryId e \<noteq> ident) (getEntries ls) = getEntries ls"
    by (simp add: filter_id_conv)
  then show "deleteEntry ident ls = (False, ls)"
    by (simp add: deleteEntry_def)
qed

text \<open>The id \<open>zz\<close> is not in the sample store of two entries.\<close>

theorem missing_id_no_write_witness:
  "''zz'' \<notin> entryId ` set (getEntries exportStorage)
   \<and> updateEntry ''zz'' \<lparr>newAmount = Some 5, newEntryType = None, newCategory = None,
        newCategoryGroup = None, newPriority = None, newDate = None, newNote = None\<rparr>
        exportStorage = (None, exportStorage)
   \<and> deleteEntry ''zz'' exportStorage = (False, exportStorage)"
proof -
  have h: "''zz'' \<notin> entryId ` set (getEntries exportStorage)"
    by (simp add: getEntries_def exportStorage_def emptyStorage_def sampleExpense_def
        sampleIncome_def)
  from missing_id_no_write[OF h] h show ?thesis by simp
qed

section \<open>CSV export\<close>

lemma csvLines_length: "length (csvLines f es) = length es + 1"
  by (simp add: csvLines_def)

lemma csvLines_header: "csvLines f es ! 0 = ''Date,Type,Category,Priority,Amount,Note''"
  by (simp add: csvLines_def headers_def)

lemma csvLines_row:
  assumes "i < length es"
  shows "csvLines f es ! (i + 1) = join '','' (map quoteCell (row f (es ! i)))"
  using assms by (simp add: csvLines_def)

text \<open>
  Claim C2, as the code has it. For every non-empty entry list with \<open>n\<close> entries the
  exported text is \<open>n + 1\<close> lines joined by line feeds: a header line, which is the six
  column names Date, Type, Category, Priority, Amount, Note separated by commas and not
  quoted, followed by one line per entry in store order, in which each of the six fields
  date, type, category, priority, amount, note is enclosed in double quotes and the
  fields are separated by commas.
\<close>

theorem exportToCSV_format:
  assumes "getEntries ls \<noteq> []" and "i < length (getEntries ls)"
  shows "exportToCSV f ls = Some (join [CHR 0x0A] (csvLines f (getEntries ls)))
     \<and> length (csvLines f (getEntries ls)) = length (getEntries ls) + 1
     \<and> csvLines f (getEntries ls) ! 0 = ''Date,Type,Category,Priority,Amount,Note''
     \<and> csvLines f (getEntries ls) ! (i + 1) =
         join '',''
           (map (\<lambda>cell. [CHR 0x22] @ cell @ [CHR 0x22])
              [date (getEntries ls ! i),
               entryTypeString (entryType (getEntries ls ! i)),
               categoryString (category (getEntries ls ! i)),
               priority (getEntries ls ! i),
               f (amount (getEntries ls ! i)),
               (case entryNote (getEntries ls ! i) of None \<Rightarrow> [] | Some n \<Rightarrow> n)])"
proof -
  have a: "exportToCSV f ls = Some (join [CHR 0x0A] (csvLines f (getEntries ls)))"
    using assms(1) by (simp add: exportToCSV_def Let_def)
  have b: "csvLines f (getEntries ls) ! (i + 1) =
         join '',''
           (map (\<lambda>cell. [CHR 0x22] @ cell @ [CHR 0x22])
              [date (getEntries ls ! i),
               entryTypeString (entryType (getEntries ls ! i)),
               categoryString (category (getEntries ls ! i)),
               priority (getEntries ls ! i),
               f (amount (getEntries ls ! i)),
               (case entryNote (getEntries ls ! i) of None \<Rightarrow> [] | Some n \<Rightarrow> n)])"
    unfolding csvLines_row[OF assms(2)] by (simp add: row_def quoteCell_def)
  from a b csvLines_length csvLines_header show ?thesis by blast
qed

lemma sample_lines:
  \<open>csvLines showWhole (getEntries exportStorage) =
     [''Date,Type,Category,Priority,Amount,Note'',
      ''"2024-03-10","expense","Shopping","lifestyle","500","shoes"'',
      ''"2024-03-01","income","FoodGroceries","needs","1000",""'']\<close>
  by code_simp

text \<open>The export of the sample store of two entries, and its second data line.\<close>

theorem exportToCSV_format_witness:
  \<open>getEntries exportStorage \<noteq> [] \<and> (1::nat) < length (getEntries exportStorage)
   \<and> exportToCSV showWhole exportStorage =
       Some (join [CHR 0x0A]
         [''Date,Type,Category,Priority,Amount,Note'',
          ''"2024-03-10","expense","Shopping","lifestyle","500","shoes"'',
          ''"2024-03-01","income","FoodGroceries","needs","1000",""''])
   \<and> csvLines showWhole (getEntries exportStorage) ! 2 =
       ''"2024-03-01","income","FoodGroceries","needs","1000",""''\<close>
proof -
  have h1: "getEntries exportStorage \<noteq> []" by code_simp
  have h2: "(1::nat) < length (getEntries exportStorage)" by code_simp
  from exportToCSV_format[OF h1 h2, of showWhole] h1 h2 sample_lines
  show ?thesis by simp
qed

text \<open>
  Claim C2 as stated fails on the header. In the export of the sample store the first
  line is \<open>Date,Type,Category,Priority,Amount,Note\<close>, none of whose fields is enclosed in
  double quotes, while the fields of the data line after it are.
\<close>

theorem header_not_quoted_counterexample:
  \<open>csvLines showWhole (getEntries exportStorage) ! 0 = ''Date,Type,Category,Priority,Amount,Note''
   \<and> \<not> spec_everyFieldQuoted (csvLines showWhole (getEntries exportStorage) ! 0)
   \<and> spec_everyFieldQuoted (csvLines showWhole (getEntries exportStorage) ! 1)
   \<and> exportToCSV showWhole exportStorage =
       Some (join [CHR 0x0A]
         [''Date,Type,Category,Priority,Amount,Note'',
          ''"2024-03-10","expense","Shopping","lifestyle","500","shoes"'',
          ''"2024-03-01","income","FoodGroceries","needs","1000",""''])\<close>
  by code_simp

section \<open>Budget rollover\<close>

lemma checkAndReset_rollover:
  assumes "budgetMonthItem ls = Some lastTracked"
      and "month lastTracked \<noteq> monthIndex today \<or> year lastTracked \<noteq> fullYear today"
  shows "checkAndResetMonthlyBudgets today ls =
           ls\<lparr>budgetsItem := Some (storedBudgets ls @ carried today lastTracked (storedBudgets ls)),
              budgetMonthItem := Some \<lparr>year = fullYear today, month = monthIndex today\<rparr>\<rparr>"
  using assms
  by (auto simp add: checkAndResetMonthlyBudgets_def getLastBudgetMonth_def Let_def
      updateLastBudgetMonth_def carried_def)

lemma checkAndReset_same_month:
  assumes "budgetMonthItem ls = Some \<lparr>year = fullYear today, month = monthIndex today\<rparr>"
  shows "checkAndResetMonthlyBudgets today ls = ls"
  using assms
  by (simp add: checkAndResetMonthlyBudgets_def getLastBudgetMonth_def Let_def)

text \<open>
  Claim C3. When budgets are read in a month different from the recorded last-tracked
  month, the stored budget list becomes the old list followed by one new row for every
  old row of the last-tracked month, with the same category and amount and the current
  month and year; the old rows stay as they were, in place. The marker advances to the
  current month, the other stored items are untouched, and a later read in the same
  month returns the same list and leaves the storage as it is.
\<close>

theorem rollover_carry_forward:
  assumes "budgetMonthItem ls = Some lastTracked"
      and "month lastTracked \<noteq> monthIndex today \<or> year lastTracked \<noteq> fullYear today"
      and "fullYear later = fullYear today" and "monthIndex later = monthIndex today"
  shows "fst (getBudgets today ls) =
           storedBudgets ls @
           map (\<lambda>b. \<lparr>budgetCategory = budgetCategory b, budgetValue = budgetValue b,
                     budgetMonth = monthIndex today, budgetYear = fullYear today\<rparr>)
             (filter (\<lambda>b. budgetMonth b = month lastTracked \<and> budgetYear b = year lastTracked)
                (storedBudgets ls))
       \<and> storedBudgets (snd (getBudgets today ls)) = fst (getBudgets today ls)
       \<and> budgetMonthItem (snd (getBudgets today ls)) =
           Some \<lparr>year = fullYear today, month = monthIndex today\<rparr>
       \<and> entriesItem (snd (getBudgets today ls)) = entriesItem ls
       \<and> streakItem (snd (getBudgets today ls)) = streakItem ls
       \<and> achievementsItem (snd (getBudgets today ls)) = achievementsItem ls
       \<and> getBudgets later (snd (getBudgets today ls)) =
           (fst (getBudgets today ls), snd (getBudgets today ls))"
proof -
  let ?new = "storedBudgets ls @ carried today lastTracked (storedBudgets ls)"
  let ?ls' = "ls\<lparr>budgetsItem := Some ?new,
              budgetMonthItem := Some \<lparr>year = fullYear today, month = monthIndex today\<rparr>\<rparr>"
  have step: "checkAndResetMonthlyBudgets today ls = ?ls'"
    by (rule checkAndReset_rollover[OF assms(1,2)])
  have read: "getBudgets today ls = (?new, ?ls')"
    by (simp add: getBudgets_def step Let_def storedBudgets_def)
  have marker: "budgetMonthItem ?ls' = Some \<lparr>year = fullYear later, month = monthIndex later\<rparr>"
    using assms(3,4) by simp
  have again: "getBudgets later ?ls' = (?new, ?ls')"
    by (simp only: getBudgets_def checkAndReset_same_month[OF marker] Let_def)
       (simp add: storedBudgets_def)
  show ?thesis
    unfolding read fst_conv snd_conv again
    by (simp add: carried_def storedBudgets_def)
qed

text \<open>
  The sample store, last tracked in February, read on 15 March and again on 28 March.
\<close>

theorem rollover_carry_forward_witness:
  "budgetMonthItem budgetStorage = Some \<lparr>year = 2024, month = 1\<rparr>
   \<and> monthIndex midMarch = 2
   \<and> fullYear lateMarch = fullYear midMarch \<and> monthIndex lateMarch = monthIndex midMarch
   \<and> fst (getBudgets midMarch budgetStorage) =
       [\<lparr>budgetCategory = Shopping, budgetValue = 1000, budgetMonth = 1, budgetYear = 2024\<rparr>,
        \<lparr>budgetCategory = Fuel, budgetValue = 300, budgetMonth = 0, budgetYear = 2024\<rparr>,
        \<lparr>budgetCategory = Shopping, budgetValue = 1000, budgetMonth = 2, budgetYear = 2024\<rparr>]
   \<and> budgetMonthItem (snd (getBudgets midMarch budgetStorage)) = Some \<lparr>year = 2024, month = 2\<rparr>
   \<and> getBudgets lateMarch (snd (getBudgets midMarch budgetStorage)) =
       getBudgets midMarch budgetStorage"
proof -
  have h1: "budgetMonthItem budgetStorage = Some \<lparr>year = 2024, month = 1\<rparr>"
    by (simp add: budgetStorage_def emptyStorage_def)
  have h2: "month \<lparr>year = 2024, month = 1\<rparr> \<noteq> monthIndex midMarch
        \<or> year \<lparr>year = 2024, month = 1\<rparr> \<noteq> fullYear midMarch"
    by (simp add: midMarch_def)
  have h3: "fullYear lateMarch = fullYear midMarch"
    by (simp add: midMarch_def lateMarch_def)
  have h4: "monthIndex lateMarch = monthIndex midMarch"
    by (simp add: midMarch_def lateMarch_def)
  have old: "storedBudgets budgetStorage =
       [\<lparr>budgetCategory = Shopping, budgetValue = 1000, budgetMonth = 1, budgetYear = 2024\<rparr>,
        \<lparr>budgetCategory = Fuel, budgetValue = 300, budgetMonth = 0, budgetYear = 2024\<rparr>]"
    by (simp add: storedBudgets_def budgetStorage_def emptyStorage_def)
  from rollover_carry_forward[OF h1 h2 h3 h4] h1 h3 h4 old
  show ?thesis by (simp add: midMarch_def)
qed

section \<open>Streaks\<close>

lemma unlockAchievement_streakItem: "streakItem (snd (unlockAchievement ident ls)) = streakItem ls"
  by (simp add: unlockAchievement_def Let_def split: option.splits)

lemma checkStreakAchievements_streakItem:
  "streakItem (checkStreakAchievements n ls) = streakItem ls"
  by (simp add: checkStreakAchievements_def Let_def unlockAchievement_streakItem)

text \<open>
  Claim C4. For an entry dated today or yesterday, \<open>updateStreak\<close> increments
  \<open>currentStreak\<close> if the stored \<open>lastEntryDate\<close> is yesterday or the empty string,
  resets it to 1 if \<open>lastEntryDate\<close> is otherwise not today, and leaves it alone if it
  is today; then \<open>lastEntryDate\<close> is today, whichever of the two dates the entry had,
  \<open>longestStreak\<close> is the maximum of its old value and the new \<open>currentStreak\<close>, and the
  record is stored. From the empty initial state this gives \<open>currentStreak = 1\<close> and
  \<open>longestStreak = 1\<close>, and a \<open>lastEntryDate\<close> that is neither today, yesterday nor
  empty gives \<open>currentStreak = 1\<close>.
\<close>

theorem updateStreak_recent_entry:
  assumes "entryDate = today \<or> entryDate = yesterday"
  shows "currentStreak (fst (updateStreak entryDate today yesterday ls)) =
           (if lastEntryDate (getStreakData ls) = yesterday \<or> lastEntryDate (getStreakData ls) = []
            then currentStreak (getStreakData ls) + 1
            else if lastEntryDate (getStreakData ls) \<noteq> today then 1
            else currentStreak (getStreakData ls))
       \<and> lastEntryDate (fst (updateStreak entryDate today yesterday ls)) = today
       \<and> longestStreak (fst (updateStreak entryDate today yesterday ls)) =
           max (longestStreak (getStreakData ls))
               (currentStreak (fst (updateStreak entryDate today yesterday ls)))
       \<and> streakItem (snd (updateStreak entryDate today yesterday ls)) =
           Some (fst (updateStreak entryDate today yesterday ls))
       \<and> (streakItem ls = None \<longrightarrow>
            currentStreak (fst (updateStreak entryDate today yesterday ls)) = 1
            \<and> longestStreak (fst (updateStreak entryDate today yesterday ls)) = 1)
       \<and> (lastEntryDate (getStreakData ls) \<noteq> today
            \<and> lastEntryDate (getStreakData ls) \<noteq> yesterday
            \<and> lastEntryDate (getStreakData ls) \<noteq> [] \<longrightarrow>
            currentStreak (fst (updateStreak entryDate today yesterday ls)) = 1)"
  using assms
  by (auto simp add: updateStreak_def Let_def checkStreakAchievements_streakItem
      getStreakData_def)

text \<open>
  An entry dated today, 15 March 2024, on the empty store and on a store whose last entry
  is five days old.
\<close>

theorem updateStreak_recent_entry_witness:
  "(''2024-03-15'' = ''2024-03-15'' \<or> ''2024-03-15'' = ''2024-03-14'')
   \<and> streakItem emptyStorage = None
   \<and> currentStreak (fst (updateStreak ''2024-03-15'' ''2024-03-15'' ''2024-03-14'' emptyStorage)) = 1
   \<and> longestStreak (fst (updateStreak ''2024-03-15'' ''2024-03-15'' ''2024-03-14'' emptyStorage)) = 1
   \<and> lastEntryDate (getStreakData staleStorage) \<noteq> ''2024-03-15''
   \<and> lastEntryDate (getStreakData staleStorage) \<noteq> ''2024-03-14''
   \<and> lastEntryDate (getStreakData staleStorage) \<noteq> []
   \<and> currentStreak (fst (updateStreak ''2024-03-15'' ''2024-03-15'' ''2024-03-14'' staleStorage)) = 1"
proof -
  have h: "''2024-03-15'' = ''2024-03-15'' \<or> ''2024-03-15'' = ''2024-03-14''" by simp
  have e: "streakItem emptyStorage = None" by (simp add: emptyStorage_def)
  have s: "getStreakData staleStorage = \<lparr>currentStreak = 5, longestStreak = 9,
                              lastEntryDate = ''2024-03-10'', totalDaysWithEntries = 20\<rparr>"
    by (simp add: getStreakData_def staleStorage_def emptyStorage_def)
  have n1: "lastEntryDate (getStreakData staleStorage) \<noteq> ''2024-03-15''"
    unfolding s by simp
  have n2: "lastEntryDate (getStreakData staleStorage) \<noteq> ''2024-03-14''"
    unfolding s by simp
  have n3: "lastEntryDate (getStreakData staleStorage) \<noteq> []"
    unfolding s by simp
  from updateStreak_recent_entry[OF h, of emptyStorage] e
  have a: "currentStreak (fst (updateStreak ''2024-03-15'' ''2024-03-15'' ''2024-03-14'' emptyStorage)) = 1
     \<and> longestStreak (fst (updateStreak ''2024-03-15'' ''2024-03-15'' ''2024-03-14'' emptyStorage)) = 1"
    by blast
  from updateStreak_recent_entry[OF h, of staleStorage] n1 n2 n3
  have b: "currentStreak (fst (updateStreak ''2024-03-15'' ''2024-03-15'' ''2024-03-14'' staleStorage)) = 1"
    by blast
  from h e a n1 n2 n3 b show ?thesis by blast
qed

text \<open>The scenario of the specification, replayed on the code.\<close>

lemma streak_scenario:
  "fst (updateStreak ''2024-03-15'' ''2024-03-15'' ''2024-03-14'' emptyStorage) =
       \<lparr>currentStreak = 1, longestStreak = 1, lastEntryDate = ''2024-03-15'',
        totalDaysWithEntries = 1\<rparr>
   \<and> fst (updateStreak ''2024-03-16'' ''2024-03-16'' ''2024-03-15''
        (snd (updateStreak ''2024-03-15'' ''2024-03-15'' ''2024-03-14'' emptyStorage))) =
       \<lparr>currentStreak = 2, longestStreak = 2, lastEntryDate = ''2024-03-16'',
        totalDaysWithEntries = 2\<rparr>
   \<and> fst (updateStreak ''2024-03-14'' ''2024-03-15'' ''2024-03-14'' staleStorage) =
       \<lparr>currentStreak = 1, longestStreak = 9, lastEntryDate = ''2024-03-15'',
        totalDaysWithEntries = 21\<rparr>
   \<and> updateStreak ''2024-03-01'' ''2024-03-15'' ''2024-03-14'' staleStorage =
       (getStreakData staleStorage, staleStorage)"
  by code_simp

text \<open>
  \<open>currentStreak \<le> longestStreak\<close> holds in the initial state and is kept by both
  operations that write the streak.
\<close>

lemma updateStreak_invariant:
  assumes "currentStreak (getStreakData ls) \<le> longestStreak (getStreakData ls)"
  shows "currentStreak (getStreakData (snd (updateStreak entryDate today yesterday ls)))
           \<le> longestStreak (getStreakData (snd (updateStreak entryDate today yesterday ls)))"
  using assms
  by (auto simp add: updateStreak_def Let_def checkStreakAchievements_streakItem
      getStreakData_def)

lemma validateStreak_invariant:
  assumes "currentStreak (getStreakData ls) \<le> longestStreak (getStreakData ls)"
  shows "currentStreak (getStreakData (validateStreak today yesterday ls))
           \<le> longestStreak (getStreakData (validateStreak today yesterday ls))"
  using assms
  by (auto simp add: validateStreak_def Let_def getStreakData_def)

lemma reachedStreak_invariant:
  assumes "reachedStreak ls"
  shows "currentStreak (getStreakData ls) \<le> longestStreak (getStreakData ls)"
  using assms
proof (induction rule: reachedStreak.induct)
  case (fresh ls)
  then show ?case by (simp add: getStreakData_def)
next
  case (updated ls entryDate today yesterday)
  from updated.IH show ?case by (rule updateStreak_invariant)
next
  case (validated ls today yesterday)
  from validated.IH show ?case by (rule validateStreak_invariant)
next
  case (other ls ls')
  then show ?case by (simp add: getStreakData_def)
qed

text \<open>
  Claim C10. If the stored \<open>lastEntryDate\<close> already equals today, \<open>updateStreak\<close> for an
  entry dated today leaves \<open>currentStreak\<close>, \<open>longestStreak\<close> and \<open>lastEntryDate\<close>
  unchanged and increments \<open>totalDaysWithEntries\<close> by 1. Hence \<open>totalDaysWithEntries\<close>
  counts the qualifying calls, not the distinct days: two entries on the same day, from
  the empty store, leave it at 2. The clock gives a non-empty today that differs from
  yesterday, and the stored streak satisfies \<open>currentStreak \<le> longestStreak\<close>, as every
  storage the streak operations reach does.
\<close>

theorem updateStreak_same_day_again:
  assumes "lastEntryDate (getStreakData ls) = today"
      and "today \<noteq> yesterday" and "today \<noteq> []"
      and "currentStreak (getStreakData ls) \<le> longestStreak (getStreakData ls)"
  shows "fst (updateStreak today today yesterday ls) =
           (getStreakData ls)\<lparr>totalDaysWithEntries := totalDaysWithEntries (getStreakData ls) + 1\<rparr>
       \<and> streakItem (snd (updateStreak today today yesterday ls)) =
           Some (fst (updateStreak today today yesterday ls))
       \<and> fst (updateStreak today today yesterday
               (snd (updateStreak today today yesterday emptyStorage))) =
           \<lparr>currentStreak = 1, longestStreak = 1, lastEntryDate = today,
            totalDaysWithEntries = 2\<rparr>"
  using assms
  by (auto simp add: updateStreak_def Let_def checkStreakAchievements_streakItem
      getStreakData_def emptyStorage_def max_def)

text \<open>A second entry on 15 March 2024, and two entries on that day from the empty store.\<close>

theorem updateStreak_same_day_again_witness:
  "lastEntryDate (getStreakData sameDayStorage) = ''2024-03-15''
   \<and> ''2024-03-15'' \<noteq> ''2024-03-14'' \<and> ''2024-03-15'' \<noteq> []
   \<and> currentStreak (getStreakData sameDayStorage) \<le> longestStreak (getStreakData sameDayStorage)
   \<and> fst (updateStreak ''2024-03-15'' ''2024-03-15'' ''2024-03-14'' sameDayStorage) =
       \<lparr>currentStreak = 3, longestStreak = 7, lastEntryDate = ''2024-03-15'',
        totalDaysWithEntries = 13\<rparr>
   \<and> totalDaysWithEntries (fst (updateStreak ''2024-03-15'' ''2024-03-15'' ''2024-03-14''
         (snd (updateStreak ''2024-03-15'' ''2024-03-15'' ''2024-03-14'' emptyStorage)))) = 2"
proof -
  have s: "getStreakData sameDayStorage = \<lparr>currentStreak = 3, longestStreak = 7,
                              lastEntryDate = ''2024-03-15'', totalDaysWithEntries = 12\<rparr>"
    by (simp add: getStreakData_def sameDayStorage_def emptyStorage_def)
  have h1: "lastEntryDate (getStreakData sameDayStorage) = ''2024-03-15''"
    unfolding s by simp
  have h2: "''2024-03-15'' \<noteq> ''2024-03-14''" by simp
  have h3: "''2024-03-15'' \<noteq> []" by simp
  have h4: "currentStreak (getStreakData sameDayStorage)
              \<le> longestStreak (getStreakData sameDayStorage)"
    unfolding s by simp
  note r = updateStreak_same_day_again[OF h1 h2 h3 h4]
  from r have a: "fst (updateStreak ''2024-03-15'' ''2024-03-15'' ''2024-03-14'' sameDayStorage) =
       \<lparr>currentStreak = 3, longestStreak = 7, lastEntryDate = ''2024-03-15'',
        totalDaysWithEntries = 13\<rparr>"
    unfolding s by simp
  from r have b: "totalDaysWithEntries (fst (updateStreak ''2024-03-15'' ''2024-03-15'' ''2024-03-14''
         (snd (updateStreak ''2024-03-15'' ''2024-03-15'' ''2024-03-14'' emptyStorage)))) = 2"
    by simp
  from h1 h2 h3 h4 a b show ?thesis by blast
qed

section \<open>Category growth\<close>

text \<open>
  \<open>getMonthDate\<close> gives the month of \<open>today\<close>, and one month back the month before
  it, as long as the day of \<open>today\<close> exists in that month.
\<close>

lemma getMonthDate_current:
  assumes "monthIndex today < 12"
      and "dayOfMonth today \<le> daysInMonth (fullYear today) (monthIndex today)"
  shows "getMonthDate 0 today = \<lparr>year = fullYear today, month = monthIndex today\<rparr>"
  using assms by (simp add: getMonthDate_def setMonth_def Let_def)

lemma getMonthDate_previous:
  assumes "monthIndex today < 12"
      and "dayOfMonth today
             \<le> daysInMonth (year (previousMonth today)) (month (previousMonth today))"
  shows "getMonthDate 1 today = previousMonth today"
proof (cases "monthIndex today = 0")
  case True
  have "(- 1 :: int) div 12 = - 1" "(- 1 :: int) mod 12 = 11" by simp_all
  with True assms(2) show ?thesis
    by (simp add: getMonthDate_def setMonth_def Let_def previousMonth_def)
next
  case False
  then obtain m where m: "monthIndex today = Suc m" by (cases "monthIndex today") auto
  with assms(1) have "int m div 12 = 0" "int m mod 12 = int m" by simp_all
  with m assms(2) show ?thesis
    by (simp add: getMonthDate_def setMonth_def Let_def previousMonth_def)
qed

lemma foldl_amount_nonNegative:
  assumes "\<forall>e\<in>set es. 0 < amount e" and "nonNegative s"
  shows "nonNegative (foldl (\<lambda>sum e. numAdd sum (Finite (amount e))) s es)"
  using assms
proof (induction es arbitrary: s)
  case Nil
  then show ?case by simp
next
  case (Cons e es)
  from Cons.prems have "nonNegative (numAdd s (Finite (amount e)))"
    by (intro numAdd_nonNegative) (simp_all add: less_imp_le)
  with Cons show ?case by simp
qed

lemma getEntriesByMonth_subset: "set (getEntriesByMonth y m ls) \<subseteq> set (getEntries ls)"
  by (auto simp add: getEntriesByMonth_def)

lemma getCategorySpending_nonNegative:
  assumes "\<forall>e\<in>set (getEntries ls). 0 < amount e"
  shows "nonNegative (getCategorySpending cat y m ls)"
proof -
  have "\<forall>e\<in>set (filter (\<lambda>e. entryType e = expense \<and> category e = cat)
                     (getEntriesByMonth y m ls)). 0 < amount e"
    using assms getEntriesByMonth_subset[of y m ls] by auto
  then show ?thesis
    unfolding getCategorySpending_def
    by (rule foldl_amount_nonNegative) (simp add: nonNegative_def)
qed

text \<open>
  Claim C5, as the code has it. On a store whose entries all have a positive amount, and
  on a day that the previous month has as well, \<open>calculateCategoryGrowth\<close> returns, in
  the order of \<open>CATEGORIES\<close>, a row for exactly those categories whose expense spend in
  the current or in the previous month is nonzero. The row's \<open>growthPercent\<close> is
  \<open>Math.round(((current - previous) / previous) * 100)\<close>, with the difference, the
  quotient and the product each rounded to a double in this order, when the previous
  spend is positive, and exactly 100 when it is zero (the current spend is then
  positive). Nothing is said of a day the previous month does not have.
\<close>

theorem calculateCategoryGrowth_rows:
  assumes "\<forall>e\<in>set (getEntries ls). 0 < amount e"
      and "monthIndex today < 12"
      and "dayOfMonth today \<le> daysInMonth (fullYear today) (monthIndex today)"
      and "dayOfMonth today
             \<le> daysInMonth (year (previousMonth today)) (month (previousMonth today))"
  shows "calculateCategoryGrowth today ls =
           map (\<lambda>cat.
                 \<lparr>growthCategory = cat,
                  currentAmount = currentMonthSpend cat today ls,
                  previousAmount = previousMonthSpend cat today ls,
                  growthPercent =
                    (if numGreater (previousMonthSpend cat today ls) (Finite 0)
                     then mathRound
                            (numMul
                               (numDiv
                                  (numSub (currentMonthSpend cat today ls)
                                     (previousMonthSpend cat today ls))
                                  (previousMonthSpend cat today ls))
                               (Finite 100))
                     else Finite 100)\<rparr>)
             (filter (\<lambda>cat. currentMonthSpend cat today ls \<noteq> Finite 0
                            \<or> previousMonthSpend cat today ls \<noteq> Finite 0)
                CATEGORIES)"
proof -
  have cur: "nonNegative (currentMonthSpend cat today ls)" for cat
    unfolding currentMonthSpend_def by (rule getCategorySpending_nonNegative[OF assms(1)])
  have prev: "nonNegative (previousMonthSpend cat today ls)" for cat
    unfolding previousMonthSpend_def by (rule getCategorySpending_nonNegative[OF assms(1)])
  have gc: "numGreater (currentMonthSpend cat today ls) (Finite 0)
              = (currentMonthSpend cat today ls \<noteq> Finite 0)" for cat
    by (rule nonNegative_greater[OF cur])
  have gp: "numGreater (previousMonthSpend cat today ls) (Finite 0)
              = (previousMonthSpend cat today ls \<noteq> Finite 0)" for cat
    by (rule nonNegative_greater[OF prev])
  have "calculateCategoryGrowth today ls =
          map (\<lambda>cat.
                 \<lparr>growthCategory = cat,
                  currentAmount = currentMonthSpend cat today ls,
                  previousAmount = previousMonthSpend cat today ls,
                  growthPercent =
                    (if numGreater (previousMonthSpend cat today ls) (Finite 0)
                     then mathRound
                            (numMul
                               (numDiv
                                  (numSub (currentMonthSpend cat today ls)
                                     (previousMonthSpend cat today ls))
                                  (previousMonthSpend cat today ls))
                               (Finite 100))
                     else if numGreater (currentMonthSpend cat today ls) (Finite 0)
                     then Finite 100 else Finite 0)\<rparr>)
             (filter (\<lambda>cat. numGreater (currentMonthSpend cat today ls) (Finite 0)
                            \<or> numGreater (previousMonthSpend cat today ls) (Finite 0))
                CATEGORIES)"
    by (simp add: calculateCategoryGrowth_def Let_def filter_map comp_def
        currentMonthSpend_def previousMonthSpend_def
        getMonthDate_current[OF assms(2,3)] getMonthDate_previous[OF assms(2,4)]
        del: One_nat_def)
  also have "\<dots> = map (\<lambda>cat.
                 \<lparr>growthCategory = cat,
                  currentAmount = currentMonthSpend cat today ls,
                  previousAmount = previousMonthSpend cat today ls,
                  growthPercent =
                    (if numGreater (previousMonthSpend cat today ls) (Finite 0)
                     then mathRound
                            (numMul
                               (numDiv
                                  (numSub (currentMonthSpend cat today ls)
                                     (previousMonthSpend cat today ls))
                                  (previousMonthSpend cat today ls))
                               (Finite 100))
                     else Finite 100)\<rparr>)
             (filter (\<lambda>cat. currentMonthSpend cat today ls \<noteq> Finite 0
                            \<or> previousMonthSpend cat today ls \<noteq> Finite 0)
                CATEGORIES)"
  proof (rule map_cong)
    show "filter (\<lambda>cat. numGreater (currentMonthSpend cat today ls) (Finite 0)
                            \<or> numGreater (previousMonthSpend cat today ls) (Finite 0)) CATEGORIES
          = filter (\<lambda>cat. currentMonthSpend cat today ls \<noteq> Finite 0
                            \<or> previousMonthSpend cat today ls \<noteq> Finite 0) CATEGORIES"
      by (simp only: gc gp)
  next
    fix cat
    assume "cat \<in> set (filter (\<lambda>cat. currentMonthSpend cat today ls \<noteq> Finite 0
                            \<or> previousMonthSpend cat today ls \<noteq> Finite 0) CATEGORIES)"
    then have nz: "currentMonthSpend cat today ls \<noteq> Finite 0
                   \<or> previousMonthSpend cat today ls \<noteq> Finite 0"
      by simp
    then have "numGreater (previousMonthSpend cat today ls) (Finite 0)
               \<or> numGreater (currentMonthSpend cat today ls) (Finite 0)"
      by (simp only: gc gp) blast
    then show "\<lparr>growthCategory = cat,
                  currentAmount = currentMonthSpend cat today ls,
                  previousAmount = previousMonthSpend cat today ls,
                  growthPercent =
                    (if numGreater (previousMonthSpend cat today ls) (Finite 0)
                     then mathRound
                            (numMul
                               (numDiv
                                  (numSub (currentMonthSpend cat today ls)
                                     (previousMonthSpend cat today ls))
                                  (previousMonthSpend cat today ls))
                               (Finite 100))
                     else if numGreater (currentMonthSpend cat today ls) (Finite 0)
                     then Finite 100 else Finite 0)\<rparr>
          = \<lparr>growthCategory = cat,
                  currentAmount = currentMonthSpend cat today ls,
                  previousAmount = previousMonthSpend cat today ls,
                  growthPercent =
                    (if numGreater (previousMonthSpend cat today ls) (Finite 0)
                     then mathRound
                            (numMul
                               (numDiv
                                  (numSub (currentMonthSpend cat today ls)
                                     (previousMonthSpend cat today ls))
                                  (previousMonthSpend cat today ls))
                               (Finite 100))
                     else Finite 100)\<rparr>"
      by auto
  qed
  finally show ?thesis .
qed

text \<open>The sample stores by month, for the evaluation of concrete inputs.\<close>

lemmas category_eval = CATEGORIES_def ALL_CATEGORIES_def NEEDS_CATEGORIES_def
  LIFESTYLE_CATEGORIES_def SAVINGS_CATEGORIES_def

lemma endOfMarch_months:
  "getMonthDate 0 endOfMarch = \<lparr>year = 2024, month = 2\<rparr>"
  "getMonthDate 1 endOfMarch = \<lparr>year = 2024, month = 2\<rparr>"
  by code_simp+

lemma growthStorage_months:
  "getEntriesByMonth 2024 2 growthStorage =
     [sampleExpense ''c'' EatingOut 750 ''2024-03-10'' 3,
      sampleExpense ''b'' Shopping 500 ''2024-03-05'' 2]"
  "getEntriesByMonth 2024 1 growthStorage = [sampleExpense ''a'' EatingOut 500 ''2024-02-20'' 1]"
  by code_simp+

lemma halfPercentStorage_months:
  "getEntriesByMonth 2024 2 halfPercentStorage = [sampleExpense ''b'' Shopping 1145 ''2024-03-05'' 2]"
  "getEntriesByMonth 2024 1 halfPercentStorage = [sampleExpense ''a'' Shopping 1000 ''2024-02-20'' 1]"
  by code_simp+

text \<open>
  On 15 March 2024: Shopping 0 then 500 grows by 100, eating out 500 then 750 by 50, and
  no other category has a row.
\<close>

lemma growth_sample:
  "calculateCategoryGrowth midMarch growthStorage =
     [\<lparr>growthCategory = EatingOut, currentAmount = Finite 750, previousAmount = Finite 500,
       growthPercent = Finite 50\<rparr>,
      \<lparr>growthCategory = Shopping, currentAmount = Finite 500, previousAmount = Finite 0,
       growthPercent = Finite 100\<rparr>]"
  by (simp add: calculateCategoryGrowth_def getCategorySpending_def midMarch_months
      growthStorage_months sampleExpense_def number_eval category_eval del: One_nat_def)

text \<open>The same rows, from the hypotheses of the theorem at that date and store.\<close>

theorem calculateCategoryGrowth_rows_witness:
  "list_all (\<lambda>e. 0 < amount e) (getEntries growthStorage)
   \<and> monthIndex midMarch < 12
   \<and> dayOfMonth midMarch \<le> daysInMonth (fullYear midMarch) (monthIndex midMarch)
   \<and> previousMonth midMarch = \<lparr>year = 2024, month = 1\<rparr>
   \<and> dayOfMonth midMarch \<le> daysInMonth 2024 1
   \<and> calculateCategoryGrowth midMarch growthStorage =
     [\<lparr>growthCategory = EatingOut, currentAmount = Finite 750, previousAmount = Finite 500,
       growthPercent = Finite 50\<rparr>,
      \<lparr>growthCategory = Shopping, currentAmount = Finite 500, previousAmount = Finite 0,
       growthPercent = Finite 100\<rparr>]"
proof -
  have h1: "\<forall>e\<in>set (getEntries growthStorage). 0 < amount e"
    by (simp add: getEntries_def growthStorage_def emptyStorage_def sampleExpense_def)
  have h2: "monthIndex midMarch < 12" by (simp add: midMarch_def)
  have h3: "dayOfMonth midMarch \<le> daysInMonth (fullYear midMarch) (monthIndex midMarch)"
    by (simp add: midMarch_def daysInMonth_def)
  have p: "previousMonth midMarch = \<lparr>year = 2024, month = 1\<rparr>"
    by (simp add: previousMonth_def midMarch_def)
  have d: "dayOfMonth midMarch \<le> daysInMonth 2024 1"
    by (simp add: midMarch_def daysInMonth_def isLeapYear_def)
  have h4: "dayOfMonth midMarch
              \<le> daysInMonth (year (previousMonth midMarch)) (month (previousMonth midMarch))"
    unfolding p using d by simp
  have rows: "map (\<lambda>cat.
                 \<lparr>growthCategory = cat,
                  currentAmount = currentMonthSpend cat midMarch growthStorage,
                  previousAmount = previousMonthSpend cat midMarch growthStorage,
                  growthPercent =
                    (if numGreater (previousMonthSpend cat midMarch growthStorage) (Finite 0)
                     then mathRound
                            (numMul
                               (numDiv
                                  (numSub (currentMonthSpend cat midMarch growthStorage)
                                     (previousMonthSpend cat midMarch growthStorage))
                                  (previousMonthSpend cat midMarch growthStorage))
                               (Finite 100))
                     else Finite 100)\<rparr>)
             (filter (\<lambda>cat. currentMonthSpend cat midMarch growthStorage \<noteq> Finite 0
                            \<or> previousMonthSpend cat midMarch growthStorage \<noteq> Finite 0)
                CATEGORIES) =
     [\<lparr>growthCategory = EatingOut, currentAmount = Finite 750, previousAmount = Finite 500,
       growthPercent = Finite 50\<rparr>,
      \<lparr>growthCategory = Shopping, currentAmount = Finite 500, previousAmount = Finite 0,
       growthPercent = Finite 100\<rparr>]"
    unfolding currentMonthSpend_def previousMonthSpend_def p
    by (simp add: getCategorySpending_def midMarch_def growthStorage_months sampleExpense_def
        number_eval category_eval del: One_nat_def)
  from calculateCategoryGrowth_rows[OF h1 h2 h3 h4] rows
  have "calculateCategoryGrowth midMarch growthStorage =
     [\<lparr>growthCategory = EatingOut, currentAmount = Finite 750, previousAmount = Finite 500,
       growthPercent = Finite 50\<rparr>,
      \<lparr>growthCategory = Shopping, currentAmount = Finite 500, previousAmount = Finite 0,
       growthPercent = Finite 100\<rparr>]"
    by (rule trans)
  moreover have "list_all (\<lambda>e. 0 < amount e) (getEntries growthStorage)"
    using h1 by (simp add: list_all_iff)
  ultimately show ?thesis using h2 h3 p d by blast
qed

text \<open>
  Claim C5 as stated fails. With 1000 spent on Shopping in February and 1145 in March
  the code computes \<open>(145 / 1000) * 100 = 14.499999999999998\<close> and reports a growth of
  14, while \<open>100 * 145 / 1000\<close> is 14.5 and rounds to 15.
\<close>

theorem growth_rounding_counterexample:
  "calculateCategoryGrowth midMarch halfPercentStorage =
     [\<lparr>growthCategory = Shopping, currentAmount = Finite 1145, previousAmount = Finite 1000,
       growthPercent = Finite 14\<rparr>]
   \<and> spec_growthPercent 1145 1000 = 15"
  by (simp add: calculateCategoryGrowth_def getCategorySpending_def midMarch_months
      halfPercentStorage_months sampleExpense_def number_eval category_eval
      spec_growthPercent_def round_def del: One_nat_def)

text \<open>
  On 31 March 2024 \<open>setMonth\<close> to February runs over into March, so that the current
  month is read in place of the previous one: both spends of a category are those of
  March and every growth is 0, where February to March gives 50 for eating out and 100
  for Shopping.
\<close>

lemma growth_end_of_month:
  "calculateCategoryGrowth endOfMarch growthStorage =
     [\<lparr>growthCategory = EatingOut, currentAmount = Finite 750, previousAmount = Finite 750,
       growthPercent = Finite 0\<rparr>,
      \<lparr>growthCategory = Shopping, currentAmount = Finite 500, previousAmount = Finite 500,
       growthPercent = Finite 0\<rparr>]"
  by (simp add: calculateCategoryGrowth_def getCategorySpending_def endOfMarch_months
      growthStorage_months sampleExpense_def number_eval category_eval del: One_nat_def)

section \<open>Budget status\<close>

text \<open>
  The rollover of the first read is idempotent and leaves the entries alone, so every
  status of one pass is computed from the same budgets and the same spend.
\<close>

lemma checkAndReset_idem:
  "checkAndResetMonthlyBudgets today (checkAndResetMonthlyBudgets today ls) =
     checkAndResetMonthlyBudgets today ls"
proof (cases "budgetMonthItem ls")
  case None
  then show ?thesis
    by (simp add: checkAndResetMonthlyBudgets_def getLastBudgetMonth_def)
next
  case (Some lastTracked)
  show ?thesis
  proof (cases "month lastTracked \<noteq> monthIndex today \<or> year lastTracked \<noteq> fullYear today")
    case True
    have "budgetMonthItem (checkAndResetMonthlyBudgets today ls) =
            Some \<lparr>year = fullYear today, month = monthIndex today\<rparr>"
      using Some True
      by (auto simp add: checkAndResetMonthlyBudgets_def getLastBudgetMonth_def Let_def
          updateLastBudgetMonth_def)
    then show ?thesis by (rule checkAndReset_same_month)
  next
    case False
    with Some have "checkAndResetMonthlyBudgets today ls = ls"
      by (simp add: checkAndResetMonthlyBudgets_def getLastBudgetMonth_def Let_def)
    then show ?thesis by simp
  qed
qed

lemma checkAndReset_entries:
  "entriesItem (checkAndResetMonthlyBudgets today ls) = entriesItem ls"
  by (simp add: checkAndResetMonthlyBudgets_def getLastBudgetMonth_def Let_def
      updateLastBudgetMonth_def split: option.splits)

lemma getCategorySpending_entries:
  assumes "entriesItem ls' = entriesItem ls"
  shows "getCategorySpending cat y m ls' = getCategorySpending cat y m ls"
  using assms by (simp add: getCategorySpending_def getEntriesByMonth_def getEntries_def)

lemma getBudgets_settled:
  "getBudgets today (checkAndResetMonthlyBudgets today ls) =
     (fst (getBudgets today ls), checkAndResetMonthlyBudgets today ls)"
  by (simp add: getBudgets_def Let_def checkAndReset_idem)

lemma snd_getBudgets: "snd (getBudgets today ls) = checkAndResetMonthlyBudgets today ls"
  by (simp add: getBudgets_def Let_def)

lemma snd_getBudgetStatus:
  "snd (getBudgetStatus cat today ls) = checkAndResetMonthlyBudgets today ls"
  by (simp add: getBudgetStatus_def getBudgetForCategory_def getBudgets_def Let_def
      split: prod.splits)

lemma getBudgetStatus_value:
  "fst (getBudgetStatus cat today ls) =
     (case find (isBudgetOf cat today) (fst (getBudgets today ls)) of
        None \<Rightarrow> None
      | Some b \<Rightarrow>
          if budgetValue b = 0 then None
          else Some \<lparr>statusCategory = cat,
                     budgetAmount = budgetValue b,
                     spentAmount = getCategorySpending cat (fullYear today) (monthIndex today) ls,
                     remainingAmount =
                       numSub (Finite (budgetValue b))
                         (getCategorySpending cat (fullYear today) (monthIndex today) ls),
                     percentage =
                       numMul
                         (numDiv (getCategorySpending cat (fullYear today) (monthIndex today) ls)
                            (Finite (budgetValue b)))
                         (Finite 100),
                     status =
                       (if numGreaterEq
                             (numMul
                                (numDiv
                                   (getCategorySpending cat (fullYear today) (monthIndex today) ls)
                                   (Finite (budgetValue b)))
                                (Finite 100))
                             (Finite 90)
                        then red
                        else if numGreaterEq
                                  (numMul
                                     (numDiv
                                        (getCategorySpending cat (fullYear today)
                                           (monthIndex today) ls)
                                        (Finite (budgetValue b)))
                                     (Finite 100))
                                  (Finite 70)
                        then yellow
                        else green)\<rparr>)"
proof -
  have sp: "getCategorySpending cat (fullYear today) (monthIndex today)
              (checkAndResetMonthlyBudgets today ls)
            = getCategorySpending cat (fullYear today) (monthIndex today) ls"
    by (rule getCategorySpending_entries[OF checkAndReset_entries])
  show ?thesis
    by (simp add: getBudgetStatus_def getBudgetForCategory_def getBudgets_def Let_def sp
        split: option.splits)
qed

lemma getBudgetStatus_settled:
  "fst (getBudgetStatus cat today (checkAndResetMonthlyBudgets today ls)) =
     fst (getBudgetStatus cat today ls)"
proof -
  have sp: "getCategorySpending cat (fullYear today) (monthIndex today)
              (checkAndResetMonthlyBudgets today ls)
            = getCategorySpending cat (fullYear today) (monthIndex today) ls"
    by (rule getCategorySpending_entries[OF checkAndReset_entries])
  show ?thesis
    unfolding getBudgetStatus_value getBudgets_settled fst_conv sp ..
qed

lemma mapBudgetStatus_value:
  "fst (mapBudgetStatus cats today ls) = map (\<lambda>cat. fst (getBudgetStatus cat today ls)) cats"
proof (induction cats arbitrary: ls)
  case Nil
  show ?case by simp
next
  case (Cons cat cats)
  show ?case
    by (simp add: case_prod_beta snd_getBudgetStatus Cons.IH getBudgetStatus_settled)
qed

lemma getAllBudgetStatuses_value:
  "fst (getAllBudgetStatuses today ls) =
     List.map_filter (\<lambda>c. fst (getBudgetStatus c today ls)) CATEGORIES"
  by (simp add: getAllBudgetStatuses_def case_prod_beta mapBudgetStatus_value
      map_filter_def filter_map comp_def)

text \<open>
  Claim C6, as the code has it. The budget of a category is the amount of its first row
  for the current month among the budgets read. When that amount is nonzero, the status
  row has \<open>percentage = (spent / budget) * 100\<close>, the quotient and the product each
  rounded to a double, and the tier \<open>red\<close> for a percentage of at least 90, \<open>yellow\<close> for
  at least 70 and below 90, \<open>green\<close> below 70. A category with no row for the current
  month has no status, and \<open>getAllBudgetStatuses\<close> lists, in the order of
  \<open>CATEGORIES\<close>, exactly the statuses that exist.
\<close>

theorem budget_status_in_doubles:
  "fst (getBudgetStatus cat today ls) =
     (case find (isBudgetOf cat today) (fst (getBudgets today ls)) of
        None \<Rightarrow> None
      | Some b \<Rightarrow>
          if budgetValue b = 0 then None
          else Some \<lparr>statusCategory = cat,
                     budgetAmount = budgetValue b,
                     spentAmount = getCategorySpending cat (fullYear today) (monthIndex today) ls,
                     remainingAmount =
                       numSub (Finite (budgetValue b))
                         (getCategorySpending cat (fullYear today) (monthIndex today) ls),
                     percentage =
                       numMul
                         (numDiv (getCategorySpending cat (fullYear today) (monthIndex today) ls)
                            (Finite (budgetValue b)))
                         (Finite 100),
                     status =
                       (if numGreaterEq
                             (numMul
                                (numDiv
                                   (getCategorySpending cat (fullYear today) (monthIndex today) ls)
                                   (Finite (budgetValue b)))
                                (Finite 100))
                             (Finite 90)
                        then red
                        else if numGreaterEq
                                  (numMul
                                     (numDiv
                                        (getCategorySpending cat (fullYear today)
                                           (monthIndex today) ls)
                                        (Finite (budgetValue b)))
                                     (Finite 100))
                                  (Finite 70)
                        then yellow
                        else green)\<rparr>)
   \<and> fst (getAllBudgetStatuses today ls) =
       List.map_filter (\<lambda>c. fst (getBudgetStatus c today ls)) CATEGORIES"
  using getBudgetStatus_value [of cat today ls] getAllBudgetStatuses_value [of today ls]
  by (rule conjI)

text \<open>
  The sample store with one Shopping budget and one Shopping expense: its percentage
  and tier for any budget and spend.
\<close>

lemma tierStorage_read:
  "fst (getBudgets midMarch (tierStorage budget spent)) =
     [\<lparr>budgetCategory = Shopping, budgetValue = budget, budgetMonth = 2, budgetYear = 2024\<rparr>]"
  by (simp add: getBudgets_def checkAndResetMonthlyBudgets_def getLastBudgetMonth_def
      storedBudgets_def tierStorage_def emptyStorage_def midMarch_def Let_def)

lemma tierStorage_month:
  "getEntriesByMonth 2024 2 (tierStorage budget spent) =
     [sampleExpense ''a'' Shopping spent ''2024-03-10'' 1]"
proof -
  have "inMonth 2024 2 (sampleExpense ''a'' Shopping spent ''2024-03-10'' 1)"
    by (simp add: inMonth_def sampleExpense_def) code_simp
  then show ?thesis
    by (simp add: getEntriesByMonth_def getEntries_def tierStorage_def emptyStorage_def)
qed

lemma tierStorage_status:
  assumes "budget \<noteq> 0"
  shows "map_option (\<lambda>r. (percentage r, status r))
           (fst (getBudgetStatus Shopping midMarch (tierStorage budget spent))) =
         Some (numMul (numDiv (toNumber spent) (Finite budget)) (Finite 100),
               (if numGreaterEq (numMul (numDiv (toNumber spent) (Finite budget)) (Finite 100))
                     (Finite 90) then red
                else if numGreaterEq (numMul (numDiv (toNumber spent) (Finite budget)) (Finite 100))
                     (Finite 70) then yellow
                else green))"
proof -
  have sp: "getCategorySpending Shopping (fullYear midMarch) (monthIndex midMarch)
              (tierStorage budget spent) = toNumber spent"
    by (simp add: getCategorySpending_def midMarch_def tierStorage_month sampleExpense_def)
  have f: "find (isBudgetOf Shopping midMarch) (fst (getBudgets midMarch (tierStorage budget spent)))
           = Some \<lparr>budgetCategory = Shopping, budgetValue = budget, budgetMonth = 2,
                   budgetYear = 2024\<rparr>"
    unfolding tierStorage_read by (simp add: isBudgetOf_def midMarch_def)
  show ?thesis
    unfolding getBudgetStatus_value f sp using assms by simp
qed

text \<open>
  The four tier examples, with a budget of 100 and 89.9, 90, 69.9 and 70 spent: the
  percentages are 89.9, 90, 69.9 and 70, and the tiers yellow, red, green and yellow.
\<close>

lemma budget_tier_examples:
  "map_option (\<lambda>r. (percentage r, status r))
       (fst (getBudgetStatus Shopping midMarch (tierStorage 100 (decimal 89.9))))
     = Some (Finite (decimal 89.9), yellow)
   \<and> map_option (\<lambda>r. (percentage r, status r))
       (fst (getBudgetStatus Shopping midMarch (tierStorage 100 90))) = Some (Finite 90, red)
   \<and> map_option (\<lambda>r. (percentage r, status r))
       (fst (getBudgetStatus Shopping midMarch (tierStorage 100 (decimal 69.9))))
     = Some (Finite (decimal 69.9), green)
   \<and> map_option (\<lambda>r. (percentage r, status r))
       (fst (getBudgetStatus Shopping midMarch (tierStorage 100 70))) = Some (Finite 70, yellow)"
  by (simp add: tierStorage_status number_eval)

text \<open>Fuel has no budget: it has no status, and the list holds the Shopping row alone.\<close>

lemma no_budget_no_row:
  "fst (getBudgetStatus Fuel midMarch (tierStorage 100 90)) = None
   \<and> map statusCategory (fst (getAllBudgetStatuses midMarch (tierStorage 100 90))) = [Shopping]"
proof -
  have none: "cat \<noteq> Shopping \<Longrightarrow>
      fst (getBudgetStatus cat midMarch (tierStorage 100 90)) = None" for cat
    unfolding getBudgetStatus_value tierStorage_read by (simp add: isBudgetOf_def)
  have some: "fst (getBudgetStatus Shopping midMarch (tierStorage 100 90)) \<noteq> None"
    using tierStorage_status[of 100 90] by auto
  then obtain r where r: "fst (getBudgetStatus Shopping midMarch (tierStorage 100 90)) = Some r"
    by auto
  then have c: "statusCategory r = Shopping"
    unfolding getBudgetStatus_value tierStorage_read
    by (auto simp add: isBudgetOf_def midMarch_def split: if_splits)
  have "fst (getAllBudgetStatuses midMarch (tierStorage 100 90)) = [r]"
    unfolding getAllBudgetStatuses_value
    by (simp add: map_filter_def category_eval none r)
  with c none[of Fuel] show ?thesis by simp
qed

text \<open>
  Claim C6 as stated fails. With 699 spent of a budget of 1000 the percentage is
  \<open>(699 / 1000) * 100 = 69.89999999999999\<close>, below \<open>100 * 699 / 1000 = 69.9\<close> and
  different from the double 69.9. With the double 36.4 spent of a budget of 52 the code
  computes a percentage of exactly 70 and the tier yellow, while \<open>100 * spent / budget\<close>
  is below 70, which is green.
\<close>

theorem percentage_formula_counterexample:
  "map_option (\<lambda>r. (percentage r, status r))
       (fst (getBudgetStatus Shopping midMarch (tierStorage 1000 699)))
     = Some (Finite (4918775218018713 / 70368744177664), green)
   \<and> (4918775218018713 / 70368744177664 :: real) < spec_percentage 699 1000
   \<and> spec_percentage 699 1000 = 699 / 10
   \<and> (4918775218018713 / 70368744177664 :: real) \<noteq> decimal 69.9
   \<and> decimal 36.4 = 5122844576133939 / 140737488355328
   \<and> map_option (\<lambda>r. (percentage r, status r))
       (fst (getBudgetStatus Shopping midMarch (tierStorage 52 (decimal 36.4))))
     = Some (Finite 70, yellow)
   \<and> spec_percentage (decimal 36.4) 52 < 70
   \<and> spec_status (spec_percentage (decimal 36.4) 52) = green"
proof -
  have d: "decimal 36.4 = 5122844576133939 / 140737488355328"
    by (simp add: number_eval)
  show ?thesis
    unfolding d
    by (simp add: tierStorage_status number_eval spec_percentage_def spec_status_def)
qed

end
